theory Spec2Isabelle
  imports Main
begin

section \<open>Bytes, errors and the hex codec\<close>

text \<open>
  Go byte slices and strings are both sequences of bytes; a conversion
  \<^verbatim>\<open>string(nonce)\<close> or \<^verbatim>\<open>[]byte(s)\<close> is the identity on them.
  Points in time are nanosecond counts, durations likewise.
\<close>

type_synonym bytes = "char list"

text \<open>
  Errors made by this file with \<^verbatim>\<open>errors.New\<close> keep their message;
  \<^verbatim>\<open>ErrTimeout\<close> is the package's own timeout error, a value declared in
  another file and distinct from every other error; an error handed back by
  a library call (kyber, crypto/x509, encoding/asn1, encoding/hex, the dialer) is
  wrapped as \<open>ExternalError\<close>.
\<close>

datatype error =
    errors_New string
  | ErrTimeout
  | ExternalError string

definition hextable :: string where
  "hextable = ''0123456789abcdef''"

text \<open>\<^verbatim>\<open>hex.EncodeToString\<close>: two lower-case digits per byte, high nibble first.\<close>

fun hex_EncodeToString :: "bytes \<Rightarrow> string" where
  "hex_EncodeToString [] = []"
| "hex_EncodeToString (b # bs) =
     hextable ! (of_char b div 16) # hextable ! (of_char b mod 16) # hex_EncodeToString bs"

text \<open>\<^verbatim>\<open>fromHexChar\<close> of encoding/hex: digits and both letter cases.\<close>

definition fromHexChar :: "char \<Rightarrow> nat option" where
  "fromHexChar c =
     (let n = of_char c :: nat in
      if 48 \<le> n \<and> n \<le> 57 then Some (n - 48)
      else if 97 \<le> n \<and> n \<le> 102 then Some (n - 97 + 10)
      else if 65 \<le> n \<and> n \<le> 70 then Some (n - 65 + 10)
      else None)"

text \<open>\<^verbatim>\<open>hex.DecodeString\<close>: fails on a character that is no hex digit and on an
  odd length.\<close>

fun hex_DecodeString :: "string \<Rightarrow> string + bytes" where
  "hex_DecodeString [] = Inr []"
| "hex_DecodeString [c] =
     (case fromHexChar c of
        None \<Rightarrow> Inl ''encoding/hex: invalid byte''
      | Some _ \<Rightarrow> Inl ''encoding/hex: odd length hex string'')"
| "hex_DecodeString (a # b # cs) =
     (case fromHexChar a of
        None \<Rightarrow> Inl ''encoding/hex: invalid byte''
      | Some hi \<Rightarrow>
         (case fromHexChar b of
            None \<Rightarrow> Inl ''encoding/hex: invalid byte''
          | Some lo \<Rightarrow>
             (case hex_DecodeString cs of
                Inl e \<Rightarrow> Inl e
              | Inr bs \<Rightarrow> Inr (char_of (hi * 16 + lo) # bs))))"

section \<open>The challenge nonce\<close>

definition nonceSize :: nat where
  "nonceSize = 256 div 8"

text \<open>\<^verbatim>\<open>bytes.ContainsAny(b, chars)\<close> for a \<open>chars\<close> of ASCII characters.\<close>

definition bytes_ContainsAny :: "bytes \<Rightarrow> string \<Rightarrow> bool" where
  "bytes_ContainsAny b chars = list_ex (\<lambda>c. c \<in> set chars) b"

text \<open>
  The source of randomness is the infinite sequence of key-stream bytes that
  \<^verbatim>\<open>s.RandomStream()\<close> hands to the nonce draws, in order, together with a
  position in it: the number of bytes the draws have consumed so far. Every draw reads
  on from the position and moves it; what other readers of the suite's randomness take
  (the signer) is not part of the sequence. kyber's \<^verbatim>\<open>random.Bytes(b, stream)\<close>
  is \<^verbatim>\<open>stream.XORKeyStream(b, b)\<close>: it combines the buffer with the next
  \<open>length b\<close> bytes of the key stream by exclusive or.
\<close>

definition xor_char :: "char \<Rightarrow> char \<Rightarrow> char" where
  "xor_char a b = char_of (xor (of_char a :: nat) (of_char b))"

definition random_Bytes :: "bytes \<Rightarrow> (nat \<Rightarrow> char) \<Rightarrow> nat \<Rightarrow> bytes" where
  "random_Bytes b rs pos = map2 xor_char b (map rs [pos ..< pos + length b])"

text \<open>
  The loop of \<^verbatim>\<open>mkNonce\<close>: redraw into the same buffer while it holds a
  forbidden character. \<open>pos\<close> is the position after the draws made so far; the result
  is the nonce and the position it leaves. Nothing bounds the number of redraws, so not
  returning is \<open>None\<close>.
\<close>

partial_function (option) mkNonce_loop ::
  "(nat \<Rightarrow> char) \<Rightarrow> nat \<Rightarrow> bytes \<Rightarrow> (bytes \<times> nat) option" where
  "mkNonce_loop rs pos buf =
     (if bytes_ContainsAny buf ''.[]%''
      then mkNonce_loop rs (pos + nonceSize) (random_Bytes buf rs pos)
      else Some (buf, pos))"

text \<open>\<^verbatim>\<open>mkNonce\<close>: the buffer starts as 32 zero bytes and is drawn into once
  before the loop.\<close>

definition mkNonce :: "(nat \<Rightarrow> char) \<Rightarrow> nat \<Rightarrow> (bytes \<times> nat) option" where
  "mkNonce rs pos =
     mkNonce_loop rs (pos + nonceSize) (random_Bytes (replicate nonceSize (CHR 0x00)) rs pos)"

text \<open>The buffer of \<^verbatim>\<open>mkNonce\<close> after its first draw and \<open>j\<close> redraws,
  started at \<open>pos\<close>.\<close>

fun draws :: "(nat \<Rightarrow> char) \<Rightarrow> nat \<Rightarrow> nat \<Rightarrow> bytes" where
  "draws rs pos 0 = random_Bytes (replicate nonceSize (CHR 0x00)) rs pos"
| "draws rs pos (Suc j) = random_Bytes (draws rs pos j) rs (pos + Suc j * nonceSize)"

text \<open>A nonce fit for the host-name field: 32 bytes, none of the four characters.\<close>

definition nonce_ok :: "bytes \<Rightarrow> bool" where
  "nonce_ok n \<longleftrightarrow> length n = 32 \<and> \<not> list_ex (\<lambda>c. c \<in> set ''.[]%'') n"

section \<open>Identities, the suite and the libraries\<close>

text \<open>
  Modelled from the spec: \<^verbatim>\<open>ServerIdentity\<close>, \<^verbatim>\<open>Address\<close> and their
  accessors, which the package declares in other files. An identity is a long-term
  public key, an optional long-term private key and a network address with a
  connection-type discriminator. The record keeps what \<^verbatim>\<open>tls.go\<close> reads: the
  public point, the private scalar (\<open>None\<close> is nil; \<^verbatim>\<open>GetPrivate\<close> returns it)
  and, of the address, what \<^verbatim>\<open>ConnType()\<close> and \<^verbatim>\<open>NetworkAddress()\<close>
  return.
\<close>

datatype ConnType = PlainTCP | TLS | Local | InvalidConnType

record Address =
  ConnType :: ConnType
  NetworkAddress :: string

record ('p, 's) ServerIdentity =
  Public :: 'p
  private_scalar :: "'s option"
  Address :: Address

definition GetPrivate :: "('p, 's) ServerIdentity \<Rightarrow> 's option" where
  "GetPrivate si = private_scalar si"

text \<open>
  The suite (kyber) is a parameter: Schnorr signing and verification, the marshalling of
  points, the legacy hex decoding, the public point of a scalar
  (\<^verbatim>\<open>Point().Mul(x, nil)\<close>) and the key stream the nonce draws read. A library
  error is its message;
  \<open>None\<close> from \<open>schnorr_Verify\<close> is the nil error.
\<close>

record ('p, 's) Suite =
  schnorr_Sign :: "'s option \<Rightarrow> bytes \<Rightarrow> string + bytes"
  schnorr_Verify :: "'p \<Rightarrow> bytes \<Rightarrow> bytes \<Rightarrow> string option"
  MarshalTo :: "'p \<Rightarrow> bytes"
  UnmarshalFrom :: "bytes \<Rightarrow> string + 'p"
  StringHexToPoint :: "string \<Rightarrow> string + 'p"
  Mul_base :: "'s \<Rightarrow> 'p"
  RandomStream :: "nat \<Rightarrow> char"

datatype ExtKeyUsage = ExtKeyUsageServerAuth | ExtKeyUsageClientAuth

datatype SignatureAlgorithm = UnknownSignatureAlgorithm | ECDSAWithSHA384

record Extension =
  Id_oid :: "nat list"
  Critical :: bool
  Value :: "bytes option"

record pkix_Name =
  CommonName :: string

text \<open>The fields of \<^verbatim>\<open>x509.Certificate\<close> this file writes or reads.\<close>

record Certificate =
  BasicConstraintsValid :: bool
  MaxPathLen :: int
  IsCA :: bool
  ExtKeyUsage :: "ExtKeyUsage list"
  NotAfter :: int
  NotBefore :: int
  SerialNumber :: nat
  SignatureAlgorithm :: SignatureAlgorithm
  Subject :: pkix_Name
  ExtraExtensions :: "Extension list"
  Extensions :: "Extension list"
  RawSubject :: bytes

text \<open>
  Go's standard library is a parameter too: key generation, ASN.1 marshalling of a
  string, certificate creation and parsing, \<^verbatim>\<open>cert.Verify\<close> against a pool of
  roots at a reading of the clock, and \<^verbatim>\<open>cert.VerifyHostname\<close>.
\<close>

record ('k, 'q) Go =
  ecdsa_GenerateKey :: "string + 'k"
  ecdsa_Public :: "'k \<Rightarrow> 'q"
  asn1_Marshal :: "string \<Rightarrow> string + bytes"
  CreateCertificate :: "Certificate \<Rightarrow> Certificate \<Rightarrow> 'q \<Rightarrow> 'k \<Rightarrow> string + bytes"
  ParseCertificates :: "bytes \<Rightarrow> string + Certificate list"
  Verify :: "Certificate \<Rightarrow> Certificate list \<Rightarrow> int \<Rightarrow> string option"
  VerifyHostname :: "Certificate \<Rightarrow> string \<Rightarrow> string option"

definition time_Minute :: int where
  "time_Minute = 60 * 1000000000"

definition time_Hour :: int where
  "time_Hour = 60 * time_Minute"

section \<open>The subject name\<close>

definition pubToCN :: "('p, 's) Suite \<Rightarrow> 'p \<Rightarrow> string" where
  "pubToCN suite pub = ''Z'' @ hex_EncodeToString (MarshalTo suite pub)"

definition pubFromCN :: "('p, 's) Suite \<Rightarrow> string \<Rightarrow> error + 'p" where
  "pubFromCN suite cn =
     (case cn of
        [] \<Rightarrow> Inl (errors_New ''commonName is missing a type byte'')
      | tp # rest \<Rightarrow>
          if tp = CHR ''Z'' then
            (case hex_DecodeString rest of
               Inl e \<Rightarrow> Inl (ExternalError e)
             | Inr buf \<Rightarrow>
                 (case UnmarshalFrom suite buf of
                    Inl e \<Rightarrow> Inl (ExternalError e)
                  | Inr pub \<Rightarrow> Inr pub))
          else
            (case StringHexToPoint suite cn of
               Inl e \<Rightarrow> Inl (ExternalError e)
             | Inr pub \<Rightarrow> Inr pub))"

section \<open>The certificate maker\<close>

record ('p, 's, 'k) certMaker =
  si :: "('p, 's) ServerIdentity"
  suite :: "('p, 's) Suite"
  subj :: pkix_Name
  subjDer :: bytes
  k :: 'k

definition newCertMaker ::
  "('k, 'q) Go \<Rightarrow> ('p, 's) Suite \<Rightarrow> ('p, 's) ServerIdentity \<Rightarrow> error + ('p, 's, 'k) certMaker" where
  "newCertMaker go s si0 =
     (case ecdsa_GenerateKey go of
        Inl e \<Rightarrow> Inl (ExternalError e)
      | Inr key \<Rightarrow>
          (let sub = \<lparr>CommonName = pubToCN s (Public si0)\<rparr> in
           case asn1_Marshal go (CommonName sub) of
             Inl e \<Rightarrow> Inl (ExternalError e)
           | Inr der \<Rightarrow> Inr \<lparr>si = si0, suite = s, subj = sub, subjDer = der, k = key\<rparr>))"

definition oidDedisSig :: "nat list" where
  "oidDedisSig = [1, 3, 6, 1, 4, 1, 51281, 1, 1]"

text \<open>\<^verbatim>\<open>big.Int.SetBytes\<close>: the bytes as a big-endian unsigned number.\<close>

definition SetBytes :: "bytes \<Rightarrow> nat" where
  "SetBytes r = foldl (\<lambda>acc b. acc * 256 + of_char b) 0 r"

record 'k tls_Certificate =
  PrivateKey :: 'k
  Certificate :: "bytes list"
  Leaf :: Certificate

text \<open>
  The template of \<^verbatim>\<open>get\<close>. \<open>now_a\<close> is what \<^verbatim>\<open>time.Now()\<close> returns
  in the line of \<open>NotAfter\<close> and \<open>now_b\<close> what it returns next, in the line of
  \<open>NotBefore\<close>; the fields the source leaves out are zero.
\<close>

definition tmpl_of :: "pkix_Name \<Rightarrow> bytes \<Rightarrow> nat \<Rightarrow> int \<Rightarrow> int \<Rightarrow> Certificate" where
  "tmpl_of sub sig serial now_a now_b =
     \<lparr>BasicConstraintsValid = True,
      MaxPathLen = 1,
      IsCA = False,
      ExtKeyUsage = [ExtKeyUsageServerAuth, ExtKeyUsageClientAuth],
      NotAfter = now_a + 2 * time_Hour,
      NotBefore = now_b + - 5 * time_Minute,
      SerialNumber = serial,
      SignatureAlgorithm = ECDSAWithSHA384,
      Subject = sub,
      ExtraExtensions = [\<lparr>Id_oid = oidDedisSig, Critical = False, Value = Some sig\<rparr>],
      Extensions = [],
      RawSubject = []\<rparr>"

text \<open>
  \<^verbatim>\<open>certMaker.get\<close>. \<open>r\<close> is the 16 random bytes of
  \<^verbatim>\<open>random.Bits(128, true, random.New())\<close>.
\<close>

definition get ::
  "('k, 'q) Go \<Rightarrow> ('p, 's, 'k) certMaker \<Rightarrow> int \<Rightarrow> int \<Rightarrow> bytes \<Rightarrow> bytes \<Rightarrow>
   error + 'k tls_Certificate" where
  "get go cm now_a now_b r nonce =
     (if length nonce \<noteq> nonceSize then Inl (errors_New ''nonce is the wrong size'')
      else
        case schnorr_Sign (suite cm) (GetPrivate (si cm)) (nonce @ subjDer cm) of
          Inl e \<Rightarrow> Inl (ExternalError e)
        | Inr sig \<Rightarrow>
            (let serial = SetBytes r;
                 tmpl = tmpl_of (subj cm) sig serial now_a now_b
             in case CreateCertificate go tmpl tmpl (ecdsa_Public go (k cm)) (k cm) of
                  Inl e \<Rightarrow> Inl (ExternalError e)
                | Inr cDer \<Rightarrow>
                    (case ParseCertificates go cDer of
                       Inl e \<Rightarrow> Inl (ExternalError e)
                     | Inr certs \<Rightarrow>
                         (case certs of
                            [] \<Rightarrow> Inl (errors_New ''no certificate found'')
                          | c0 # _ \<Rightarrow>
                              Inr \<lparr>PrivateKey = k cm, Certificate = [cDer], Leaf = c0\<rparr>))))"

text \<open>The two callbacks: the nonce comes in the server name, or as the first
  acceptable CA.\<close>

record ClientHelloInfo =
  ServerName_hello :: string

record CertificateRequestInfo =
  AcceptableCAs :: "bytes list"

definition getCertificate ::
  "('k, 'q) Go \<Rightarrow> ('p, 's, 'k) certMaker \<Rightarrow> int \<Rightarrow> int \<Rightarrow> bytes \<Rightarrow> ClientHelloInfo \<Rightarrow>
   error + 'k tls_Certificate" where
  "getCertificate go cm now_a now_b r hello = get go cm now_a now_b r (ServerName_hello hello)"

definition getClientCertificate ::
  "('k, 'q) Go \<Rightarrow> ('p, 's, 'k) certMaker \<Rightarrow> int \<Rightarrow> int \<Rightarrow> bytes \<Rightarrow> CertificateRequestInfo \<Rightarrow>
   error + 'k tls_Certificate" where
  "getClientCertificate go cm now_a now_b r req =
     (case AcceptableCAs req of
        [] \<Rightarrow> Inl (errors_New ''server did not provide a nonce in AcceptableCAs'')
      | ca0 # _ \<Rightarrow> get go cm now_a now_b r ca0)"

section \<open>The verifier\<close>

text \<open>The loop over \<^verbatim>\<open>cert.Extensions\<close>: the value of the first extension
  with the DEDIS object identifier; \<open>None\<close> is the nil slice.\<close>

fun find_sig :: "Extension list \<Rightarrow> bytes option" where
  "find_sig [] = None"
| "find_sig (x # xs) = (if Id_oid x = oidDedisSig then Value x else find_sig xs)"

text \<open>
  The closure \<^verbatim>\<open>makeVerifier\<close> returns, with what it captures (\<open>suite\<close>,
  \<open>them\<close>, \<open>nonce\<close>) as its first arguments. \<open>now\<close> is the clock
  \<^verbatim>\<open>cert.Verify\<close> reads; \<open>None\<close> is the nil error. The second argument of
  the Go closure is never read and is left out.
\<close>

definition verifier ::
  "('k, 'q) Go \<Rightarrow> ('p, 's) Suite \<Rightarrow> ('p, 's) ServerIdentity option \<Rightarrow> bytes \<Rightarrow>
   bytes list \<Rightarrow> int \<Rightarrow> error option" where
  "verifier go s them nonce rawCerts now =
     (case rawCerts of
        [raw] \<Rightarrow>
          (case ParseCertificates go raw of
             Inl e \<Rightarrow> Some (ExternalError e)
           | Inr certs \<Rightarrow>
               (case certs of
                  [cert] \<Rightarrow>
                    (case Verify go cert [cert] now of
                       Some e \<Rightarrow> Some (ExternalError e)
                     | None \<Rightarrow>
                         (case (case them of
                                  None \<Rightarrow> None
                                | Some t \<Rightarrow> VerifyHostname go cert (pubToCN s (Public t))) of
                            Some e \<Rightarrow> Some (ExternalError e)
                          | None \<Rightarrow>
                              (case find_sig (Extensions cert) of
                                 None \<Rightarrow> Some (errors_New ''DEDIS signature not found'')
                               | Some sig \<Rightarrow>
                                   (let cn = CommonName (Subject cert) in
                                    case pubFromCN s cn of
                                      Inl e \<Rightarrow> Some e
                                    | Inr pub \<Rightarrow>
                                        (case asn1_Marshal go cn of
                                           Inl e \<Rightarrow> Some (ExternalError e)
                                         | Inr subAsn1 \<Rightarrow>
                                             map_option ExternalError
                                               (schnorr_Verify s pub (nonce @ subAsn1) sig))))))
                | _ \<Rightarrow> Some (errors_New ''expected exactly one certificate''))
           )
      | _ \<Rightarrow> Some (errors_New ''expected exactly one certificate''))"

text \<open>
  \<^verbatim>\<open>makeVerifier\<close>: the nonce is drawn first, from the suite's stream at the
  position \<open>pos\<close>; the closure is the partial application. The result carries the
  position the draw leaves, so that a later call draws other bytes. \<open>None\<close>: the draw
  never ends.
\<close>

definition makeVerifier ::
  "('k, 'q) Go \<Rightarrow> ('p, 's) Suite \<Rightarrow> ('p, 's) ServerIdentity option \<Rightarrow> nat \<Rightarrow>
   ((bytes list \<Rightarrow> int \<Rightarrow> error option) \<times> bytes \<times> nat) option" where
  "makeVerifier go s them pos =
     (case mkNonce (RandomStream s) pos of
        None \<Rightarrow> None
      | Some (nonce, pos') \<Rightarrow> Some (verifier go s them nonce, nonce, pos'))"

section \<open>Configurations\<close>

datatype ClientAuthType =
  NoClientCert | RequestClientCert | RequireAnyClientCert | VerifyClientCertIfGiven
  | RequireAndVerifyClientCert

text \<open>
  \<^verbatim>\<open>tls.Config\<close>, with the fields this file names: the seventeen that
  \<^verbatim>\<open>cloneTLSClientConfig\<close> lists, the three callbacks the file sets elsewhere
  (\<open>GetClientCertificate\<close>, \<open>GetConfigForClient\<close>, \<open>VerifyPeerCertificate\<close>),
  and the \<^verbatim>\<open>sync.Once\<close> its comment speaks of (\<open>once\<close>: whether it has
  fired). A nil pointer, interface, map or function is \<open>None\<close>, a nil slice the empty
  list. A certificate pool is the list of the certificates added to it. The callbacks
  that issue a certificate also take the two clock readings and the random bytes that
  \<^verbatim>\<open>get\<close> consumes.
\<close>

record ('v, 'k, 'g) Config =
  Rand :: "'v option"
  Time :: "'v option"
  Certificates :: "'k tls_Certificate list"
  NameToCertificate :: "'v option"
  GetCertificate :: "(int \<Rightarrow> int \<Rightarrow> bytes \<Rightarrow> ClientHelloInfo \<Rightarrow> error + 'k tls_Certificate) option"
  RootCAs :: "Certificate list option"
  NextProtos :: "string list"
  ServerName :: string
  ClientAuth :: ClientAuthType
  ClientCAs :: "Certificate list option"
  InsecureSkipVerify :: bool
  CipherSuites :: "nat list"
  PreferServerCipherSuites :: bool
  ClientSessionCache :: "'v option"
  MinVersion :: nat
  MaxVersion :: nat
  CurvePreferences :: "nat list"
  GetClientCertificate ::
    "(int \<Rightarrow> int \<Rightarrow> bytes \<Rightarrow> CertificateRequestInfo \<Rightarrow> error + 'k tls_Certificate) option"
  GetConfigForClient :: "'g option"
  VerifyPeerCertificate :: "(bytes list \<Rightarrow> int \<Rightarrow> error option) option"
  once :: bool

text \<open>The zero value \<^verbatim>\<open>tls.Config{}\<close>.\<close>

definition zero_Config :: "('v, 'k, 'g) Config" where
  "zero_Config =
     \<lparr>Rand = None, Time = None, Certificates = [], NameToCertificate = None,
      GetCertificate = None, RootCAs = None, NextProtos = [], ServerName = [],
      ClientAuth = NoClientCert, ClientCAs = None, InsecureSkipVerify = False,
      CipherSuites = [], PreferServerCipherSuites = False, ClientSessionCache = None,
      MinVersion = 0, MaxVersion = 0, CurvePreferences = [],
      GetClientCertificate = None, GetConfigForClient = None,
      VerifyPeerCertificate = None, once = False\<rparr>"

definition cloneTLSClientConfig :: "('v, 'k, 'g) Config option \<Rightarrow> ('v, 'k, 'g) Config" where
  "cloneTLSClientConfig c =
     (case c of
        None \<Rightarrow> zero_Config
      | Some cfg \<Rightarrow>
          zero_Config
            \<lparr>Rand := Rand cfg,
             Time := Time cfg,
             Certificates := Certificates cfg,
             NameToCertificate := NameToCertificate cfg,
             GetCertificate := GetCertificate cfg,
             RootCAs := RootCAs cfg,
             NextProtos := NextProtos cfg,
             ServerName := ServerName cfg,
             ClientAuth := ClientAuth cfg,
             ClientCAs := ClientCAs cfg,
             InsecureSkipVerify := InsecureSkipVerify cfg,
             CipherSuites := CipherSuites cfg,
             PreferServerCipherSuites := PreferServerCipherSuites cfg,
             ClientSessionCache := ClientSessionCache cfg,
             MinVersion := MinVersion cfg,
             MaxVersion := MaxVersion cfg,
             CurvePreferences := CurvePreferences cfg\<rparr>)"

definition tlsConfig ::
  "('k, 'q) Go \<Rightarrow> ('p, 's) Suite \<Rightarrow> ('p, 's) ServerIdentity \<Rightarrow> error + ('v, 'k, 'g) Config" where
  "tlsConfig go s us =
     (case newCertMaker go s us of
        Inl e \<Rightarrow> Inl e
      | Inr cm \<Rightarrow>
          Inr (zero_Config
                 \<lparr>GetCertificate := Some (getCertificate go cm),
                  GetClientCertificate := Some (getClientCertificate go cm),
                  InsecureSkipVerify := True\<rparr>))"

text \<open>The zero value of \<^verbatim>\<open>x509.Certificate\<close>, for the certificate that carries
  the nonce in its raw subject.\<close>

definition zero_Certificate :: Certificate where
  "zero_Certificate =
     \<lparr>BasicConstraintsValid = False, MaxPathLen = 0, IsCA = False, ExtKeyUsage = [],
      NotAfter = 0, NotBefore = 0, SerialNumber = 0,
      SignatureAlgorithm = UnknownSignatureAlgorithm, Subject = \<lparr>CommonName = []\<rparr>,
      ExtraExtensions = [], Extensions = [], RawSubject = []\<rparr>"

text \<open>
  The callback \<^verbatim>\<open>NewTLSListenerWithListenAddr\<close> installs as
  \<open>GetConfigForClient\<close>, with the \<open>cfg\<close> and \<open>suite\<close> it captures. The new
  pool starts empty and \<^verbatim>\<open>AddCert\<close> appends to it. The hello is only logged.
  \<open>pos\<close> is the position of the random stream when the callback runs, and the result
  carries the position it leaves. \<open>None\<close>: the nonce draw never ends.
\<close>

definition GetConfigForClient_closure ::
  "('k, 'q) Go \<Rightarrow> ('p, 's) Suite \<Rightarrow> ('v, 'k, 'g) Config \<Rightarrow> ClientHelloInfo \<Rightarrow> nat \<Rightarrow>
   ((error + ('v, 'k, 'g) Config) \<times> nat) option" where
  "GetConfigForClient_closure go s cfg client pos =
     (let cfg2 = cloneTLSClientConfig (Some cfg);
          pool = []
      in case makeVerifier go s None pos of
           None \<Rightarrow> None
         | Some (vrf, nonce, pos') \<Rightarrow>
             Some (Inr (cfg2\<lparr>VerifyPeerCertificate := Some vrf,
                             ClientCAs := Some (pool @ [zero_Certificate\<lparr>RawSubject := nonce\<rparr>])\<rparr>),
                   pos'))"

section \<open>Outbound connections\<close>

text \<open>
  What the loop of \<^verbatim>\<open>NewTLSConn\<close> does to the outside: the configurations
  handed to \<^verbatim>\<open>tls.DialWithDialer\<close>, in order, and the number of
  \<^verbatim>\<open>time.Sleep(WaitRetry)\<close> calls.
\<close>

record ('v, 'k, 'g) world =
  dialled :: "('v, 'k, 'g) Config list"
  slept :: nat

text \<open>Modelled from the spec: \<^verbatim>\<open>TCPConn\<close>, the package's connection type,
  declared in another file; \<^verbatim>\<open>NewTLSConn\<close> fills its fields \<open>conn\<close> and
  \<open>suite\<close>.\<close>

record ('c, 'p, 's) TCPConn =
  conn :: 'c
  suite_conn :: "('p, 's) Suite"

text \<open>
  The loop. \<open>M\<close> is \<^verbatim>\<open>MaxRetryConnect\<close>, a constant declared elsewhere in
  the package. \<open>dial\<close> is \<^verbatim>\<open>tls.DialWithDialer\<close>: its outcome may depend on
  the attempts made before, the address and the configuration. \<open>err\<close> is the named
  result, as it stands on entry to the iteration.
\<close>

function connect_loop ::
  "(('v, 'k, 'g) Config list \<Rightarrow> string \<Rightarrow> ('v, 'k, 'g) Config \<Rightarrow> string + 'c) \<Rightarrow> int \<Rightarrow>
   ('p, 's) Suite \<Rightarrow> string \<Rightarrow> bytes \<Rightarrow> int \<Rightarrow> ('v, 'k, 'g) Config \<Rightarrow> error option \<Rightarrow>
   ('v, 'k, 'g) world \<Rightarrow>
   ('c, 'p, 's) TCPConn option \<times> error option \<times> ('v, 'k, 'g) world" where
  "connect_loop dial M s netAddr nonce i cfg err w =
     (if i \<le> M then
        (let cfg1 = cfg\<lparr>ServerName := nonce\<rparr>;
             w1 = w\<lparr>dialled := dialled w @ [cfg1]\<rparr>
         in case dial (dialled w) netAddr cfg1 of
              Inr c \<Rightarrow> (Some \<lparr>conn = c, suite_conn = s\<rparr>, None, w1)
            | Inl e \<Rightarrow>
                connect_loop dial M s netAddr nonce (i + 1) cfg1 (Some (ExternalError e))
                  (if i < M then w1\<lparr>slept := slept w1 + 1\<rparr> else w1))
      else (None, (if err = None then Some ErrTimeout else err), w))"
  by pat_completeness auto
termination
  by (relation "measure (\<lambda>(dial, M, s, netAddr, nonce, i, cfg, err, w). nat (M + 1 - i))") auto

declare connect_loop.simps [simp del]

text \<open>
  \<^verbatim>\<open>NewTLSConn\<close>, started with the random stream at position \<open>pos\<close>. The
  result carries the position the call leaves: the loop has no access to the stream.
\<close>

definition NewTLSConn ::
  "('k, 'q) Go \<Rightarrow> int \<Rightarrow>
   (('v, 'k, 'g) Config list \<Rightarrow> string \<Rightarrow> ('v, 'k, 'g) Config \<Rightarrow> string + 'c) \<Rightarrow>
   ('p, 's) ServerIdentity \<Rightarrow> ('p, 's) ServerIdentity \<Rightarrow> ('p, 's) Suite \<Rightarrow> nat \<Rightarrow>
   (('c, 'p, 's) TCPConn option \<times> error option \<times> ('v, 'k, 'g) world \<times> nat) option" where
  "NewTLSConn go M dial us them s pos =
     (let w0 = \<lparr>dialled = [], slept = 0\<rparr> in
      if ConnType (Address them) \<noteq> TLS then
        Some (None, Some (errors_New ''not a tls server''), w0, pos)
      else if GetPrivate us = None then
        Some (None, Some (errors_New ''private key is not set''), w0, pos)
      else
        case tlsConfig go s us of
          Inl e \<Rightarrow> Some (None, Some e, w0, pos)
        | Inr cfg \<Rightarrow>
            (case makeVerifier go s (Some them) pos of
               None \<Rightarrow> None
             | Some (vrf, nonce, pos') \<Rightarrow>
                 (case connect_loop dial M s (NetworkAddress (Address them)) nonce 1
                         (cfg\<lparr>VerifyPeerCertificate := Some vrf\<rparr>) None w0 of
                    (c, e, w) \<Rightarrow> Some (c, e, w, pos'))))"

section \<open>What is asked of the libraries\<close>

text \<open>
  The identity is valid when its private scalar is set and its public point is the
  point of that scalar.
\<close>

definition valid_identity :: "('p, 's) Suite \<Rightarrow> ('p, 's) ServerIdentity \<Rightarrow> bool" where
  "valid_identity s si0 =
     (case private_scalar si0 of None \<Rightarrow> False | Some x \<Rightarrow> Public si0 = Mul_base s x)"

text \<open>Schnorr signatures verify under the public point of the signing scalar.\<close>

definition schnorr_correct :: "('p, 's) Suite \<Rightarrow> bool" where
  "schnorr_correct s \<longleftrightarrow>
     (\<forall>x m sig. schnorr_Sign s (Some x) m = Inr sig \<longrightarrow>
        schnorr_Verify s (Mul_base s x) m sig = None)"

text \<open>
  The symbolic reading of unforgeability: a signature made on one message verifies on
  no other message, under any point.
\<close>

definition schnorr_binding :: "('p, 's) Suite \<Rightarrow> bool" where
  "schnorr_binding s \<longleftrightarrow>
     (\<forall>x m sig p m'. schnorr_Sign s x m = Inr sig \<longrightarrow>
        schnorr_Verify s p m' sig = None \<longrightarrow> m' = m)"

text \<open>Unmarshalling undoes marshalling.\<close>

definition point_roundtrip :: "('p, 's) Suite \<Rightarrow> bool" where
  "point_roundtrip s \<longleftrightarrow> (\<forall>p. UnmarshalFrom s (MarshalTo s p) = Inr p)"

text \<open>
  What \<^verbatim>\<open>get\<close> and the verifier rely on in crypto/x509, for the templates
  \<^verbatim>\<open>get\<close> builds: the bytes created from a template parse to exactly one
  certificate, with the template's common name and with the template's DEDIS
  extension as the first one of that identifier; that certificate verifies against the
  pool that holds only itself at any time in its window; and its host name check
  accepts its own common name.
\<close>

definition x509_contract :: "('k, 'q) Go \<Rightarrow> bool" where
  "x509_contract go \<longleftrightarrow>
     (\<forall>sub sig serial a b key cDer.
        CreateCertificate go (tmpl_of sub sig serial a b) (tmpl_of sub sig serial a b)
          (ecdsa_Public go key) key = Inr cDer \<longrightarrow>
        (\<exists>c. ParseCertificates go cDer = Inr [c] \<and>
             CommonName (Subject c) = CommonName sub \<and>
             find_sig (Extensions c) = Some sig \<and>
             (\<forall>now. b + - 5 * time_Minute \<le> now \<and> now \<le> a + 2 * time_Hour \<longrightarrow>
                Verify go c [c] now = None) \<and>
             VerifyHostname go c (CommonName sub) = None))"

text \<open>\<^verbatim>\<open>cert.Verify\<close> accepts no certificate after its \<open>NotAfter\<close>.\<close>

definition verify_checks_expiry :: "('k, 'q) Go \<Rightarrow> bool" where
  "verify_checks_expiry go \<longleftrightarrow>
     (\<forall>c roots now. Verify go c roots now = None \<longrightarrow> now \<le> NotAfter c)"

text \<open>Parsing gives back the window the template asked for.\<close>

definition x509_keeps_window :: "('k, 'q) Go \<Rightarrow> bool" where
  "x509_keeps_window go \<longleftrightarrow>
     (\<forall>sub sig serial a b key cDer c cs.
        CreateCertificate go (tmpl_of sub sig serial a b) (tmpl_of sub sig serial a b)
          (ecdsa_Public go key) key = Inr cDer \<and>
        ParseCertificates go cDer = Inr (c # cs) \<longrightarrow>
        NotBefore c = b - 5 * time_Minute \<and> NotAfter c = a + 2 * time_Hour)"

section \<open>A small instance\<close>

text \<open>
  A suite whose points and scalars are single bytes, the point of a scalar being the
  scalar; a signature is the scalar followed by the message. Its stream hands out 32
  bytes \<open>A\<close> and then bytes \<open>B\<close>.
\<close>

definition ex_Suite :: "(char, char) Suite" where
  "ex_Suite =
     \<lparr>schnorr_Sign = (\<lambda>x m. case x of None \<Rightarrow> Inl ''schnorr: nil scalar'' | Some x' \<Rightarrow> Inr (x' # m)),
      schnorr_Verify = (\<lambda>p m sig. if sig = p # m then None else Some ''schnorr: invalid signature''),
      MarshalTo = (\<lambda>p. [p]),
      UnmarshalFrom = (\<lambda>b. case b of [c] \<Rightarrow> Inr c | _ \<Rightarrow> Inl ''invalid point''),
      StringHexToPoint = (\<lambda>str. Inl ''invalid hex point''),
      Mul_base = (\<lambda>x. x),
      RandomStream = (\<lambda>i. if i < 32 then CHR ''A'' else CHR ''B'')\<rparr>"

definition ex_si :: "(char, char) ServerIdentity" where
  "ex_si =
     \<lparr>Public = CHR ''K'', private_scalar = Some (CHR ''K''),
      Address = \<lparr>ConnType = TLS, NetworkAddress = ''127.0.0.1:7770''\<rparr>\<rparr>"

definition ex_nonce :: bytes where
  "ex_nonce = replicate 32 (CHR ''A'')"

definition ex_subj :: pkix_Name where
  "ex_subj = \<lparr>CommonName = ''Z4b''\<rparr>"

definition ex_subjDer :: bytes where
  "ex_subjDer = CHR 0x13 # ''Z4b''"

definition ex_now :: int where
  "ex_now = 1000 * time_Hour"

definition ex_tmpl :: Certificate where
  "ex_tmpl = tmpl_of ex_subj (CHR ''K'' # ex_nonce @ ex_subjDer) 1 ex_now ex_now"

definition ex_leaf :: Certificate where
  "ex_leaf = ex_tmpl\<lparr>ExtraExtensions := [], Extensions := ExtraExtensions ex_tmpl\<rparr>"

text \<open>
  A library that can create and parse one certificate, the one of \<open>ex_tmpl\<close>;
  it checks the window and the pool, and compares host names exactly.
\<close>

definition ex_Go :: "(nat, nat) Go" where
  "ex_Go =
     \<lparr>ecdsa_GenerateKey = Inr 7,
      ecdsa_Public = (\<lambda>key. key),
      asn1_Marshal = (\<lambda>str. Inr (CHR 0x13 # str)),
      CreateCertificate = (\<lambda>t parent pub key.
         if t = ex_tmpl \<and> parent = ex_tmpl then Inr ''cert'' else Inl ''x509: unsupported template''),
      ParseCertificates = (\<lambda>raw.
         if raw = ''cert'' then Inr [ex_leaf] else Inl ''asn1: syntax error''),
      Verify = (\<lambda>c roots now.
         if c \<notin> set roots then Some ''x509: certificate signed by unknown authority''
         else if now < NotBefore c \<or> NotAfter c < now
           then Some ''x509: certificate has expired or is not yet valid''
         else None),
      VerifyHostname = (\<lambda>c h.
         if CommonName (Subject c) = h then None
         else Some ''x509: certificate is valid for another name'')\<rparr>"

definition ex_cm :: "(char, char, nat) certMaker" where
  "ex_cm = \<lparr>si = ex_si, suite = ex_Suite, subj = ex_subj, subjDer = ex_subjDer, k = 7\<rparr>"

definition ex_dial_refused ::
  "(unit, nat, unit) Config list \<Rightarrow> string \<Rightarrow> (unit, nat, unit) Config \<Rightarrow> string + nat" where
  "ex_dial_refused h a c = Inl ''connect: connection refused''"

definition ex_dial_second ::
  "(unit, nat, unit) Config list \<Rightarrow> string \<Rightarrow> (unit, nat, unit) Config \<Rightarrow> string + nat" where
  "ex_dial_second h a c = (if length h < 1 then Inl ''connect: connection refused'' else Inr 42)"

definition ex_cfg :: "(unit, nat, unit) Config" where
  "ex_cfg = zero_Config
                 \<lparr>GetCertificate := Some (getCertificate ex_Go ex_cm),
                  GetClientCertificate := Some (getClientCertificate ex_Go ex_cm),
                  InsecureSkipVerify := True\<rparr>"

definition ex_cfg1 :: "(unit, nat, unit) Config" where
  "ex_cfg1 = ex_cfg\<lparr>VerifyPeerCertificate := Some (verifier ex_Go ex_Suite (Some ex_si) ex_nonce),
                   ServerName := ex_nonce\<rparr>"

text \<open>
  A library that differs from \<open>ex_Go\<close> in two places. It also parses the bytes
  \<open>intruder\<close>, to a certificate whose common name \<open>Z45\<close> is the point \<open>E\<close>, whose
  DEDIS extension is the signature of the scalar \<open>E\<close> on \<open>ex_nonce\<close> and that name,
  and which carries a subject alternative name extension with the DNS name \<open>Z4b\<close>.
  And its host name check reads the subject alternative name when the certificate has
  one, and the common name only when it has none, as the check of crypto/x509 does.
\<close>

definition oidSubjectAltName :: "nat list" where
  "oidSubjectAltName = [2, 5, 29, 17]"

fun ex_san :: "Extension list \<Rightarrow> bytes option" where
  "ex_san [] = None"
| "ex_san (x # xs) = (if Id_oid x = oidSubjectAltName then Value x else ex_san xs)"

definition ex_intruder_leaf :: Certificate where
  "ex_intruder_leaf =
     \<lparr>BasicConstraintsValid = True,
      MaxPathLen = 1,
      IsCA = False,
      ExtKeyUsage = [ExtKeyUsageServerAuth, ExtKeyUsageClientAuth],
      NotAfter = ex_now + 2 * time_Hour,
      NotBefore = ex_now + - 5 * time_Minute,
      SerialNumber = 2,
      SignatureAlgorithm = ECDSAWithSHA384,
      Subject = \<lparr>CommonName = ''Z45''\<rparr>,
      ExtraExtensions = [],
      Extensions =
        [\<lparr>Id_oid = oidSubjectAltName, Critical = False, Value = Some ''Z4b''\<rparr>,
         \<lparr>Id_oid = oidDedisSig, Critical = False,
          Value = Some (CHR ''E'' # ex_nonce @ CHR 0x13 # ''Z45'')\<rparr>],
      RawSubject = []\<rparr>"

definition ex_Go_san :: "(nat, nat) Go" where
  "ex_Go_san =
     ex_Go
       \<lparr>ParseCertificates := (\<lambda>raw.
          if raw = ''cert'' then Inr [ex_leaf]
          else if raw = ''intruder'' then Inr [ex_intruder_leaf]
          else Inl ''asn1: syntax error''),
        VerifyHostname := (\<lambda>c h.
          case ex_san (Extensions c) of
            Some name \<Rightarrow>
              if name = h then None else Some ''x509: certificate is valid for another name''
          | None \<Rightarrow>
              if CommonName (Subject c) = h then None
              else Some ''x509: certificate is valid for another name'')\<rparr>"

section \<open>The nonce is well formed\<close>

lemma length_random_Bytes: "length (random_Bytes b rs pos) = length b"
  by (simp add: random_Bytes_def)

lemma mkNonce_loop_sound:
  assumes run: "mkNonce_loop rs pos buf = Some (n, p)" and len: "length buf = nonceSize"
  shows "length n = nonceSize \<and> \<not> bytes_ContainsAny n ''.[]%'' \<and> pos \<le> p"
proof -
  let ?P = "\<lambda>(rs :: nat \<Rightarrow> char) pos buf (y :: bytes \<times> nat). length buf = nonceSize \<longrightarrow>
               length (fst y) = nonceSize \<and> \<not> bytes_ContainsAny (fst y) ''.[]%'' \<and> pos \<le> snd y"
  have "?P rs pos buf (n, p)"
  proof (rule mkNonce_loop.raw_induct [where P = ?P, OF _ run])
    fix f :: "(nat \<Rightarrow> char) \<Rightarrow> nat \<Rightarrow> bytes \<Rightarrow> (bytes \<times> nat) option" and rs pos buf y
    assume IH: "\<And>rs pos buf y. f rs pos buf = Some y \<Longrightarrow> ?P rs pos buf y"
      and eq: "(if bytes_ContainsAny buf ''.[]%''
                then f rs (pos + nonceSize) (random_Bytes buf rs pos)
                else Some (buf, pos)) = Some y"
    show "?P rs pos buf y"
    proof (cases "bytes_ContainsAny buf ''.[]%''")
      case True
      with eq have "f rs (pos + nonceSize) (random_Bytes buf rs pos) = Some y"
        by simp
      from IH [OF this] show ?thesis
        by (auto simp: length_random_Bytes)
    next
      case False
      with eq have "y = (buf, pos)" by simp
      with False show ?thesis by simp
    qed
  qed
  with len show ?thesis by simp
qed

lemma mkNonce_nonce_ok: "mkNonce rs pos = Some (n, p) \<Longrightarrow> nonce_ok n"
  using mkNonce_loop_sound
    [of rs "pos + nonceSize" "random_Bytes (replicate nonceSize (CHR 0x00)) rs pos" n p]
  by (simp add: mkNonce_def nonce_ok_def bytes_ContainsAny_def length_random_Bytes nonceSize_def)

text \<open>A draw consumes the stream: it leaves the position at least 32 bytes on.\<close>

lemma mkNonce_advances: "mkNonce rs pos = Some (n, p) \<Longrightarrow> pos + 32 \<le> p"
  using mkNonce_loop_sound
    [of rs "pos + nonceSize" "random_Bytes (replicate nonceSize (CHR 0x00)) rs pos" n p]
  by (simp add: mkNonce_def length_random_Bytes nonceSize_def)

text \<open>The draw returns as soon as the buffer is free of the four characters after some
  redraw: the loop that holds the buffer of redraw \<open>j\<close> ends if the buffer of redraw
  \<open>j + d\<close> is clean.\<close>

lemma mkNonce_loop_returns:
  "\<not> bytes_ContainsAny (draws rs pos (j + d)) ''.[]%'' \<Longrightarrow>
   \<exists>y. mkNonce_loop rs (pos + Suc j * nonceSize) (draws rs pos j) = Some y"
proof (induction d arbitrary: j)
  case 0
  then show ?case by (subst mkNonce_loop.simps) simp
next
  case (Suc d)
  from Suc.prems have "\<not> bytes_ContainsAny (draws rs pos (Suc j + d)) ''.[]%''"
    by simp
  from Suc.IH [OF this] obtain y where
    y: "mkNonce_loop rs (pos + Suc (Suc j) * nonceSize) (draws rs pos (Suc j)) = Some y"
    by blast
  show ?case
  proof (cases "bytes_ContainsAny (draws rs pos j) ''.[]%''")
    case True
    have "mkNonce_loop rs (pos + Suc j * nonceSize) (draws rs pos j) =
          mkNonce_loop rs (pos + Suc j * nonceSize + nonceSize)
            (random_Bytes (draws rs pos j) rs (pos + Suc j * nonceSize))"
      using True by (subst mkNonce_loop.simps) simp
    also have "pos + Suc j * nonceSize + nonceSize = pos + Suc (Suc j) * nonceSize" by simp
    finally show ?thesis using y by simp
  next
    case False
    then show ?thesis by (subst mkNonce_loop.simps) simp
  qed
qed

lemma mkNonce_returns:
  "\<not> bytes_ContainsAny (draws rs pos d) ''.[]%'' \<Longrightarrow> \<exists>y. mkNonce rs pos = Some y"
  using mkNonce_loop_returns [of rs pos 0 d] by (simp add: mkNonce_def)

text \<open>
  C4. Every nonce \<^verbatim>\<open>mkNonce\<close> returns is exactly 32 bytes long and holds none of
  the four bytes \<open>.\<close>, \<open>[\<close>, \<open>]\<close>, \<open>%\<close>.
\<close>

theorem mkNonce_charset:
  "mkNonce rs pos = Some (n, p) \<Longrightarrow>
   length n = 32 \<and> CHR ''.'' \<notin> set n \<and> CHR ''['' \<notin> set n \<and> CHR '']'' \<notin> set n \<and> CHR ''%'' \<notin> set n"
  using mkNonce_loop_sound
    [of rs "pos + nonceSize" "random_Bytes (replicate nonceSize (CHR 0x00)) rs pos" n p]
  by (simp add: mkNonce_def bytes_ContainsAny_def length_random_Bytes nonceSize_def list_ex_iff) blast

lemma xor_char_zero: "xor_char (CHR 0x00) c = c"
  by (simp add: xor_char_def)

lemma first_draw_const:
  assumes "\<And>i. pos \<le> i \<Longrightarrow> i < pos + n \<Longrightarrow> rs i = a"
  shows "random_Bytes (replicate n (CHR 0x00)) rs pos = replicate n a"
proof -
  have "map rs [pos ..< pos + n] = map (\<lambda>i. a) [pos ..< pos + n]"
    by (rule map_cong) (simp_all add: assms)
  then show ?thesis
    by (simp add: random_Bytes_def xor_char_zero map_replicate_const)
qed

lemma mkNonce_example:
  "mkNonce (\<lambda>i. if i < 32 then CHR ''A'' else CHR ''B'') 0 = Some (replicate 32 (CHR ''A''), 32)"
proof -
  have "random_Bytes (replicate 32 (CHR 0x00)) (\<lambda>i. if i < 32 then CHR ''A'' else CHR ''B'') 0 =
        replicate 32 (CHR ''A'')"
    by (rule first_draw_const) simp
  then show ?thesis
    by (simp add: mkNonce_def nonceSize_def)
      (subst mkNonce_loop.simps, simp add: bytes_ContainsAny_def list_ex_iff)
qed

text \<open>Drawn again from where that draw stopped, the bytes are others.\<close>

lemma mkNonce_example_next:
  "mkNonce (\<lambda>i. if i < 32 then CHR ''A'' else CHR ''B'') 32 = Some (replicate 32 (CHR ''B''), 64)"
proof -
  have "random_Bytes (replicate 32 (CHR 0x00)) (\<lambda>i. if i < 32 then CHR ''A'' else CHR ''B'') 32 =
        replicate 32 (CHR ''B'')"
    by (rule first_draw_const) simp
  then show ?thesis
    by (simp add: mkNonce_def nonceSize_def)
      (subst mkNonce_loop.simps, simp add: bytes_ContainsAny_def list_ex_iff)
qed

theorem mkNonce_charset_witness:
  "mkNonce (\<lambda>i. if i < 32 then CHR ''A'' else CHR ''B'') 0 = Some (replicate 32 (CHR ''A''), 32) \<and>
   length (replicate 32 (CHR ''A'')) = 32 \<and> CHR ''.'' \<notin> set (replicate 32 (CHR ''A''))"
  using mkNonce_charset [OF mkNonce_example] mkNonce_example by simp

section \<open>The hex codec and the subject name\<close>

lemma fromHexChar_hextable: "n < 16 \<Longrightarrow> fromHexChar (hextable ! n) = Some n"
proof -
  assume "n < 16"
  then have "n \<in> {0, 1, 2, 3, 4, 5, 6, 7, 8, 9, 10, 11, 12, 13, 14, 15}"
    by simp arith
  then show ?thesis
    by (auto simp: hextable_def fromHexChar_def)
qed

lemma hex_roundtrip: "hex_DecodeString (hex_EncodeToString bs) = Inr bs"
proof (induction bs)
  case Nil
  show ?case by simp
next
  case (Cons b bs)
  have lt: "(of_char b :: nat) < 256" by simp
  then have hi: "(of_char b :: nat) div 16 < 16" by arith
  have lo: "(of_char b :: nat) mod 16 < 16" by simp
  have rebuilt: "char_of ((of_char b :: nat) div 16 * 16 + of_char b mod 16) = b"
    by simp
  show ?case
    using Cons.IH by (simp add: fromHexChar_hextable [OF hi] fromHexChar_hextable [OF lo] rebuilt)
qed

lemma pubFromCN_pubToCN:
  "point_roundtrip s \<Longrightarrow> pubFromCN s (pubToCN s p) = Inr p"
  by (simp add: pubFromCN_def pubToCN_def hex_roundtrip point_roundtrip_def)

section \<open>The small instance meets what is asked\<close>

lemma ex_newCertMaker: "newCertMaker ex_Go ex_Suite ex_si = Inr ex_cm"
  by (simp add: newCertMaker_def ex_Go_def ex_Suite_def ex_si_def ex_cm_def pubToCN_def
      ex_subj_def ex_subjDer_def hextable_def Let_def)

lemma ex_get: "get ex_Go ex_cm ex_now ex_now [CHR 0x01] ex_nonce =
   Inr \<lparr>PrivateKey = 7, Certificate = [''cert''], Leaf = ex_leaf\<rparr>"
  by (simp add: get_def ex_Go_def ex_cm_def ex_Suite_def ex_si_def ex_nonce_def nonceSize_def
      GetPrivate_def SetBytes_def ex_tmpl_def Let_def)

lemma ex_valid: "valid_identity ex_Suite ex_si"
  by (simp add: valid_identity_def ex_Suite_def ex_si_def)

lemma ex_schnorr_correct: "schnorr_correct ex_Suite"
  by (simp add: schnorr_correct_def ex_Suite_def)

lemma ex_schnorr_binding: "schnorr_binding ex_Suite"
  by (auto simp: schnorr_binding_def ex_Suite_def split: option.splits if_splits)

lemma ex_point_roundtrip: "point_roundtrip ex_Suite"
  by (simp add: point_roundtrip_def ex_Suite_def)

lemma ex_tmpl_eq:
  "tmpl_of sub sig serial a b = ex_tmpl \<longleftrightarrow>
   sub = ex_subj \<and> sig = CHR ''K'' # ex_nonce @ ex_subjDer \<and> serial = 1 \<and> a = ex_now \<and> b = ex_now"
  by (auto simp: ex_tmpl_def tmpl_of_def time_Hour_def time_Minute_def)

lemma ex_x509_contract: "x509_contract ex_Go"
  unfolding x509_contract_def
  by (auto simp: ex_Go_def ex_tmpl_eq ex_leaf_def ex_tmpl_def tmpl_of_def oidDedisSig_def
      ex_subj_def split: if_splits)

lemma ex_expiry: "verify_checks_expiry ex_Go"
  by (auto simp: verify_checks_expiry_def ex_Go_def split: if_splits)

lemma ex_keeps_window: "x509_keeps_window ex_Go"
  unfolding x509_keeps_window_def
  by (auto simp: ex_Go_def ex_tmpl_eq ex_leaf_def ex_tmpl_def tmpl_of_def split: if_splits)

lemma ex_tlsConfig: "tlsConfig ex_Go ex_Suite ex_si = Inr ex_cfg"
  by (simp add: tlsConfig_def ex_newCertMaker ex_cfg_def)

lemma ex_mkNonce: "mkNonce (RandomStream ex_Suite) 0 = Some (ex_nonce, 32)"
  using mkNonce_example by (simp add: ex_Suite_def ex_nonce_def)

lemma ex_mkNonce_next: "mkNonce (RandomStream ex_Suite) 32 = Some (replicate 32 (CHR ''B''), 64)"
  using mkNonce_example_next by (simp add: ex_Suite_def)

lemma ex_makeVerifier:
  "makeVerifier ex_Go ex_Suite them 0 = Some (verifier ex_Go ex_Suite them ex_nonce, ex_nonce, 32)"
  by (simp add: makeVerifier_def ex_mkNonce)

text \<open>A second call, made where the first one left the stream, is bound to another
  nonce.\<close>

lemma ex_makeVerifier_next:
  "makeVerifier ex_Go ex_Suite them 32 =
     Some (verifier ex_Go ex_Suite them (replicate 32 (CHR ''B'')), replicate 32 (CHR ''B''), 64)"
  by (simp add: makeVerifier_def ex_mkNonce_next)

lemma ex_nonce_ok: "nonce_ok ex_nonce"
  using mkNonce_nonce_ok [OF ex_mkNonce] .

lemma ex_window: "ex_now + - 5 * time_Minute \<le> ex_now" "ex_now \<le> ex_now + 2 * time_Hour"
  by (simp_all add: time_Minute_def time_Hour_def)

lemma ex_parse: "ParseCertificates ex_Go ''cert'' = Inr [ex_leaf]"
  by (simp add: ex_Go_def)

section \<open>Issuing a certificate\<close>

text \<open>
  C7. A nonce whose length is not 32 makes \<^verbatim>\<open>get\<close> return the wrong-size error,
  and no certificate; a nonce of 32 bytes takes it past the length check: the result is
  not that error, and when signing, creation and parsing succeed it is the certificate.
\<close>

theorem get_nonce_size:
  "(length nonce \<noteq> 32 \<longrightarrow>
      get go cm now_a now_b r nonce = Inl (errors_New ''nonce is the wrong size'')) \<and>
   (length nonce = 32 \<longrightarrow>
      get go cm now_a now_b r nonce \<noteq> Inl (errors_New ''nonce is the wrong size'') \<and>
      (\<forall>sig cDer c0 cs.
         schnorr_Sign (suite cm) (GetPrivate (si cm)) (nonce @ subjDer cm) = Inr sig \<and>
         CreateCertificate go (tmpl_of (subj cm) sig (SetBytes r) now_a now_b)
           (tmpl_of (subj cm) sig (SetBytes r) now_a now_b) (ecdsa_Public go (k cm)) (k cm) = Inr cDer \<and>
         ParseCertificates go cDer = Inr (c0 # cs) \<longrightarrow>
         get go cm now_a now_b r nonce =
           Inr \<lparr>PrivateKey = k cm, Certificate = [cDer], Leaf = c0\<rparr>))"
  by (auto simp: get_def nonceSize_def Let_def split: sum.splits list.splits)

theorem get_nonce_size_witness:
  "get ex_Go ex_cm ex_now ex_now [CHR 0x01] ''short'' = Inl (errors_New ''nonce is the wrong size'') \<and>
   length ex_nonce = 32 \<and>
   get ex_Go ex_cm ex_now ex_now [CHR 0x01] ex_nonce \<noteq> Inl (errors_New ''nonce is the wrong size'')"
  using get_nonce_size [where nonce = "''short''" and go = ex_Go and cm = ex_cm and now_a = ex_now
      and now_b = ex_now and r = "[CHR 0x01]"]
    get_nonce_size [where nonce = ex_nonce and go = ex_Go and cm = ex_cm and now_a = ex_now
      and now_b = ex_now and r = "[CHR 0x01]"]
  by (simp add: ex_nonce_def)

text \<open>
  C10. With an empty list of acceptable CAs the client certificate callback returns an
  error and no certificate; with a non-empty list it is \<^verbatim>\<open>get\<close> on the first
  entry, whatever the further entries are.
\<close>

theorem getClientCertificate_first_CA:
  "(AcceptableCAs req = [] \<longrightarrow>
      getClientCertificate go cm now_a now_b r req =
        Inl (errors_New ''server did not provide a nonce in AcceptableCAs'')) \<and>
   (\<forall>ca0 rest. AcceptableCAs req = ca0 # rest \<longrightarrow>
      getClientCertificate go cm now_a now_b r req = get go cm now_a now_b r ca0)"
  by (simp add: getClientCertificate_def)

theorem getClientCertificate_first_CA_witness:
  "getClientCertificate ex_Go ex_cm ex_now ex_now [CHR 0x01] \<lparr>AcceptableCAs = []\<rparr> =
     Inl (errors_New ''server did not provide a nonce in AcceptableCAs'') \<and>
   getClientCertificate ex_Go ex_cm ex_now ex_now [CHR 0x01] \<lparr>AcceptableCAs = [ex_nonce, ''ignored'']\<rparr> =
     get ex_Go ex_cm ex_now ex_now [CHR 0x01] ex_nonce"
  using getClientCertificate_first_CA [where req = "\<lparr>AcceptableCAs = []\<rparr>" and go = ex_Go and cm = ex_cm
      and now_a = ex_now and now_b = ex_now and r = "[CHR 0x01]"]
    getClientCertificate_first_CA [where req = "\<lparr>AcceptableCAs = [ex_nonce, ''ignored'']\<rparr>"
      and go = ex_Go and cm = ex_cm and now_a = ex_now and now_b = ex_now and r = "[CHR 0x01]"]
  by simp

lemma get_Inr:
  assumes "get go cm now_a now_b r nonce = Inr tc"
  shows "length nonce = nonceSize \<and>
    (\<exists>sig cDer c0 cs.
       schnorr_Sign (suite cm) (GetPrivate (si cm)) (nonce @ subjDer cm) = Inr sig \<and>
       CreateCertificate go (tmpl_of (subj cm) sig (SetBytes r) now_a now_b)
         (tmpl_of (subj cm) sig (SetBytes r) now_a now_b) (ecdsa_Public go (k cm)) (k cm) = Inr cDer \<and>
       ParseCertificates go cDer = Inr (c0 # cs) \<and>
       tc = \<lparr>PrivateKey = k cm, Certificate = [cDer], Leaf = c0\<rparr>)"
  using assms
  by (auto simp: get_def Let_def split: if_splits sum.splits list.splits)

lemma newCertMaker_Inr:
  assumes "newCertMaker go s si0 = Inr cm"
  shows "si cm = si0 \<and> suite cm = s \<and> CommonName (subj cm) = pubToCN s (Public si0) \<and>
         asn1_Marshal go (pubToCN s (Public si0)) = Inr (subjDer cm)"
  using assms
  by (auto simp: newCertMaker_def Let_def split: sum.splits)

section \<open>Cloning a configuration\<close>

text \<open>The clone is the input with the once-only state reset and the three callbacks
  the list leaves out set to nil.\<close>

lemma cloneTLSClientConfig_listed:
  "cloneTLSClientConfig (Some cfg) =
     cfg\<lparr>GetClientCertificate := None, GetConfigForClient := None,
         VerifyPeerCertificate := None, once := False\<rparr>"
  by (simp add: cloneTLSClientConfig_def zero_Config_def)

lemma tlsConfig_sets_GetClientCertificate:
  "tlsConfig go s us = Inr cfg \<Longrightarrow>
   GetClientCertificate cfg \<noteq> None \<and> GetClientCertificate (cloneTLSClientConfig (Some cfg)) = None"
  by (auto simp: tlsConfig_def cloneTLSClientConfig_def zero_Config_def split: sum.splits)

text \<open>
  C5. The clone does not keep every field other than the once-only state: whatever
  the input holds in \<open>GetClientCertificate\<close>, \<open>GetConfigForClient\<close> or
  \<open>VerifyPeerCertificate\<close>, the clone holds nil there.
\<close>

theorem cloneTLSClientConfig_drops_callbacks:
  "GetClientCertificate (cloneTLSClientConfig (Some (cfg\<lparr>GetClientCertificate := Some f\<rparr>))) = None \<and>
   GetConfigForClient (cloneTLSClientConfig (Some (cfg\<lparr>GetConfigForClient := Some g\<rparr>))) = None \<and>
   VerifyPeerCertificate (cloneTLSClientConfig (Some (cfg\<lparr>VerifyPeerCertificate := Some v\<rparr>))) = None"
  by (simp add: cloneTLSClientConfig_def zero_Config_def)

section \<open>Verifying an issued certificate\<close>

text \<open>What the verifier sees in a certificate that \<^verbatim>\<open>get\<close> issued.\<close>

lemma issued_parses:
  assumes lib: "x509_contract go"
    and got: "get go cm now_a now_b r nonce = Inr tc"
  shows "\<exists>sig cDer c.
       schnorr_Sign (suite cm) (GetPrivate (si cm)) (nonce @ subjDer cm) = Inr sig \<and>
       Certificate tc = [cDer] \<and> ParseCertificates go cDer = Inr [c] \<and>
       CommonName (Subject c) = CommonName (subj cm) \<and>
       find_sig (Extensions c) = Some sig \<and>
       (\<forall>now. now_b + - 5 * time_Minute \<le> now \<and> now \<le> now_a + 2 * time_Hour \<longrightarrow>
          Verify go c [c] now = None) \<and>
       VerifyHostname go c (CommonName (subj cm)) = None"
proof -
  from get_Inr [OF got] obtain sig cDer c0 cs where
    sg: "schnorr_Sign (suite cm) (GetPrivate (si cm)) (nonce @ subjDer cm) = Inr sig" and
    cr: "CreateCertificate go (tmpl_of (subj cm) sig (SetBytes r) now_a now_b)
         (tmpl_of (subj cm) sig (SetBytes r) now_a now_b) (ecdsa_Public go (k cm)) (k cm) = Inr cDer" and
    tc: "tc = \<lparr>PrivateKey = k cm, Certificate = [cDer], Leaf = c0\<rparr>"
    by blast
  from lib [unfolded x509_contract_def, rule_format, OF cr] obtain c where
    "ParseCertificates go cDer = Inr [c]"
    "CommonName (Subject c) = CommonName (subj cm)"
    "find_sig (Extensions c) = Some sig"
    "\<forall>now. now_b + - 5 * time_Minute \<le> now \<and> now \<le> now_a + 2 * time_Hour \<longrightarrow>
          Verify go c [c] now = None"
    "VerifyHostname go c (CommonName (subj cm)) = None"
    by blast
  with sg tc show ?thesis by auto
qed

lemma verifier_on_issued:
  assumes mk: "newCertMaker go s si0 = Inr cm"
    and lib: "x509_contract go"
    and rt: "point_roundtrip s"
    and got: "get go cm now_a now_b r nonce = Inr tc"
    and win: "now_b + - 5 * time_Minute \<le> now" "now \<le> now_a + 2 * time_Hour"
    and them: "them = None \<or> them = Some si0"
  shows "\<exists>sig. schnorr_Sign s (GetPrivate si0) (nonce @ subjDer cm) = Inr sig \<and>
     verifier go s them nonce' (Certificate tc) now =
       map_option ExternalError (schnorr_Verify s (Public si0) (nonce' @ subjDer cm) sig)"
proof -
  note m = newCertMaker_Inr [OF mk]
  from issued_parses [OF lib got] obtain sig cDer c where
    sg: "schnorr_Sign (suite cm) (GetPrivate (si cm)) (nonce @ subjDer cm) = Inr sig" and
    raw: "Certificate tc = [cDer]" and
    parse: "ParseCertificates go cDer = Inr [c]" and
    cn: "CommonName (Subject c) = CommonName (subj cm)" and
    ext: "find_sig (Extensions c) = Some sig" and
    ver: "\<forall>now. now_b + - 5 * time_Minute \<le> now \<and> now \<le> now_a + 2 * time_Hour \<longrightarrow>
          Verify go c [c] now = None" and
    host: "VerifyHostname go c (CommonName (subj cm)) = None"
    by blast
  from ver win have v: "Verify go c [c] now = None" by blast
  have cn': "CommonName (Subject c) = pubToCN s (Public si0)" using cn m by simp
  have host': "VerifyHostname go c (pubToCN s (Public si0)) = None" using host m by simp
  have pub: "pubFromCN s (pubToCN s (Public si0)) = Inr (Public si0)"
    by (rule pubFromCN_pubToCN [OF rt])
  have der: "asn1_Marshal go (pubToCN s (Public si0)) = Inr (subjDer cm)" using m by simp
  have "verifier go s them nonce' (Certificate tc) now =
       map_option ExternalError (schnorr_Verify s (Public si0) (nonce' @ subjDer cm) sig)"
    using them
    by (auto simp: verifier_def raw parse v cn' host' ext pub der Let_def)
  moreover have "schnorr_Sign s (GetPrivate si0) (nonce @ subjDer cm) = Inr sig"
    using sg m by simp
  ultimately show ?thesis by blast
qed

lemma makeVerifier_closure:
  "makeVerifier go s them pos = Some (vrf, nonce, pos') \<Longrightarrow>
   vrf = verifier go s them nonce \<and> nonce_ok nonce \<and> pos + 32 \<le> pos'"
  by (auto simp: makeVerifier_def mkNonce_nonce_ok mkNonce_advances split: option.splits)

lemma ex_verifier_accepts:
  assumes "them = None \<or> them = Some ex_si"
  shows "verifier ex_Go ex_Suite them ex_nonce [''cert''] ex_now = None"
proof -
  from verifier_on_issued [OF ex_newCertMaker ex_x509_contract ex_point_roundtrip ex_get ex_window assms,
      of ex_nonce]
  show ?thesis
    by (auto simp: ex_Suite_def ex_si_def GetPrivate_def)
qed

lemma verifier_accepts_D:
  assumes "verifier go s them nonce rawCerts now = None"
  shows "\<exists>raw cert. rawCerts = [raw] \<and> ParseCertificates go raw = Inr [cert] \<and>
           Verify go cert [cert] now = None \<and>
           (\<forall>t. them = Some t \<longrightarrow> VerifyHostname go cert (pubToCN s (Public t)) = None)"
  using assms
  by (auto simp: verifier_def Let_def split: list.splits sum.splits option.splits)

text \<open>Identity mismatch: when the host name check refuses the expected identity, the
  verifier returns that refusal.\<close>

lemma verifier_identity_mismatch:
  assumes "ParseCertificates go raw = Inr [cert]"
    and "Verify go cert [cert] now = None"
    and "VerifyHostname go cert (pubToCN s (Public t)) = Some e"
  shows "verifier go s (Some t) nonce [raw] now = Some (ExternalError e)"
  using assms by (simp add: verifier_def)

lemma verifier_ignores_hostname:
  "verifier (go\<lparr>VerifyHostname := h\<rparr>) s None nonce rawCerts now = verifier go s None nonce rawCerts now"
  by (simp add: verifier_def Let_def split: list.splits sum.splits option.splits)

text \<open>
  C1. For a valid identity and a 32-byte nonce free of the four characters, the
  certificate \<^verbatim>\<open>get\<close> issues for the nonce is accepted by the verifier bound to
  that nonce, with no expected identity and with the issuer as the expected identity,
  and so by any closure \<^verbatim>\<open>makeVerifier\<close> returns with that nonce. The
  verification time lies in the window of the certificate; the libraries do what is
  asked of them above.
\<close>

theorem issue_verify_roundtrip:
  assumes mk: "newCertMaker go s si0 = Inr cm"
    and valid: "valid_identity s si0"
    and sch: "schnorr_correct s"
    and rt: "point_roundtrip s"
    and lib: "x509_contract go"
    and nonce: "nonce_ok nonce"
    and got: "get go cm now_a now_b r nonce = Inr tc"
    and win: "now_b + - 5 * time_Minute \<le> now" "now \<le> now_a + 2 * time_Hour"
  shows "verifier go s None nonce (Certificate tc) now = None \<and>
         verifier go s (Some si0) nonce (Certificate tc) now = None \<and>
         (\<forall>them vrf pos pos'.
            makeVerifier go s them pos = Some (vrf, nonce, pos') \<and> (them = None \<or> them = Some si0) \<longrightarrow>
            vrf (Certificate tc) now = None)"
proof -
  from valid obtain x where x: "private_scalar si0 = Some x" "Public si0 = Mul_base s x"
    by (auto simp: valid_identity_def split: option.splits)
  have acc: "verifier go s them nonce (Certificate tc) now = None"
    if them: "them = None \<or> them = Some si0" for them
  proof -
    from verifier_on_issued [OF mk lib rt got win them, of nonce] obtain sig where
      sg: "schnorr_Sign s (GetPrivate si0) (nonce @ subjDer cm) = Inr sig" and
      v: "verifier go s them nonce (Certificate tc) now =
       map_option ExternalError (schnorr_Verify s (Public si0) (nonce @ subjDer cm) sig)"
      by blast
    from sg x have "schnorr_Sign s (Some x) (nonce @ subjDer cm) = Inr sig"
      by (simp add: GetPrivate_def)
    with sch have "schnorr_Verify s (Mul_base s x) (nonce @ subjDer cm) sig = None"
      by (simp add: schnorr_correct_def)
    with v x show ?thesis by simp
  qed
  have clo: "vrf (Certificate tc) now = None"
    if mvh: "makeVerifier go s them pos = Some (vrf, nonce, pos')"
      and th: "them = None \<or> them = Some si0"
    for them vrf pos pos'
  proof -
    from makeVerifier_closure [OF mvh] have "vrf = verifier go s them nonce" by simp
    with acc [OF th] show ?thesis by simp
  qed
  show ?thesis
  proof (intro conjI allI impI)
    show "verifier go s None nonce (Certificate tc) now = None"
      by (rule acc) simp
    show "verifier go s (Some si0) nonce (Certificate tc) now = None"
      by (rule acc) simp
  next
    fix them vrf pos pos'
    assume "makeVerifier go s them pos = Some (vrf, nonce, pos') \<and> (them = None \<or> them = Some si0)"
    then show "vrf (Certificate tc) now = None"
      using clo by blast
  qed
qed

theorem issue_verify_roundtrip_witness:
  "newCertMaker ex_Go ex_Suite ex_si = Inr ex_cm \<and> valid_identity ex_Suite ex_si \<and>
   nonce_ok ex_nonce \<and>
   get ex_Go ex_cm ex_now ex_now [CHR 0x01] ex_nonce =
     Inr \<lparr>PrivateKey = 7, Certificate = [''cert''], Leaf = ex_leaf\<rparr> \<and>
   verifier ex_Go ex_Suite None ex_nonce [''cert''] ex_now = None \<and>
   verifier ex_Go ex_Suite (Some ex_si) ex_nonce [''cert''] ex_now = None"
proof -
  note r = issue_verify_roundtrip [OF ex_newCertMaker ex_valid ex_schnorr_correct ex_point_roundtrip
      ex_x509_contract ex_nonce_ok ex_get ex_window]
  from r [THEN conjunct1] have a: "verifier ex_Go ex_Suite None ex_nonce [''cert''] ex_now = None"
    by simp
  from r [THEN conjunct2, THEN conjunct1]
  have b: "verifier ex_Go ex_Suite (Some ex_si) ex_nonce [''cert''] ex_now = None"
    by simp
  from a b ex_newCertMaker ex_valid ex_nonce_ok ex_get show ?thesis by blast
qed

text \<open>
  C3. A certificate issued for nonce A is rejected by the verifier bound to a
  32-byte nonce B other than A, for any identity, expected identity and time, when a
  Schnorr signature verifies on no message but the signed one.
\<close>

theorem nonce_binding:
  assumes lib: "x509_contract go"
    and bind: "schnorr_binding (suite cm)"
    and got: "get go cm now_a now_b r nonceA = Inr tc"
    and lenB: "length nonceB = 32"
    and neq: "nonceA \<noteq> nonceB"
  shows "verifier go (suite cm) them nonceB (Certificate tc) now \<noteq> None"
proof
  assume ok: "verifier go (suite cm) them nonceB (Certificate tc) now = None"
  from get_Inr [OF got] have lenA: "length nonceA = 32" by (simp add: nonceSize_def)
  from issued_parses [OF lib got] obtain sig cDer c where
    sg: "schnorr_Sign (suite cm) (GetPrivate (si cm)) (nonceA @ subjDer cm) = Inr sig" and
    raw: "Certificate tc = [cDer]" and
    parse: "ParseCertificates go cDer = Inr [c]" and
    ext: "find_sig (Extensions c) = Some sig"
    by blast
  from ok obtain pub subAsn1 where
    "schnorr_Verify (suite cm) pub (nonceB @ subAsn1) sig = None"
    by (auto simp: verifier_def raw parse ext Let_def split: option.splits sum.splits)
  with bind sg have "nonceB @ subAsn1 = nonceA @ subjDer cm"
    unfolding schnorr_binding_def by blast
  with lenA lenB have "nonceB = nonceA" by simp
  with neq show False by simp
qed

theorem nonce_binding_witness:
  "get ex_Go ex_cm ex_now ex_now [CHR 0x01] ex_nonce =
     Inr \<lparr>PrivateKey = 7, Certificate = [''cert''], Leaf = ex_leaf\<rparr> \<and>
   ex_nonce \<noteq> replicate 32 (CHR ''B'') \<and>
   verifier ex_Go ex_Suite None (replicate 32 (CHR ''B'')) [''cert''] ex_now \<noteq> None"
proof -
  have b: "schnorr_binding (suite ex_cm)" using ex_schnorr_binding by (simp add: ex_cm_def)
  have l: "length (replicate 32 (CHR ''B'')) = 32" by simp
  have n: "ex_nonce \<noteq> replicate 32 (CHR ''B'')" by (simp add: ex_nonce_def)
  from nonce_binding [OF ex_x509_contract b ex_get l n, of None ex_now] ex_get n
  show ?thesis by (simp add: ex_cm_def)
qed

text \<open>Under the conditions of the round trip the rejection is the error of the Schnorr
  check itself.\<close>

lemma rejected_at_signature:
  assumes mk: "newCertMaker go s si0 = Inr cm"
    and lib: "x509_contract go"
    and rt: "point_roundtrip s"
    and bind: "schnorr_binding s"
    and got: "get go cm now_a now_b r nonceA = Inr tc"
    and win: "now_b + - 5 * time_Minute \<le> now" "now \<le> now_a + 2 * time_Hour"
    and them: "them = None \<or> them = Some si0"
    and lenB: "length nonceB = 32"
    and neq: "nonceA \<noteq> nonceB"
  shows "\<exists>sig e. schnorr_Verify s (Public si0) (nonceB @ subjDer cm) sig = Some e \<and>
           verifier go s them nonceB (Certificate tc) now = Some (ExternalError e)"
proof -
  from get_Inr [OF got] have lenA: "length nonceA = 32" by (simp add: nonceSize_def)
  from verifier_on_issued [OF mk lib rt got win them, of nonceB] obtain sig where
    sg: "schnorr_Sign s (GetPrivate si0) (nonceA @ subjDer cm) = Inr sig" and
    v: "verifier go s them nonceB (Certificate tc) now =
       map_option ExternalError (schnorr_Verify s (Public si0) (nonceB @ subjDer cm) sig)"
    by blast
  have "schnorr_Verify s (Public si0) (nonceB @ subjDer cm) sig \<noteq> None"
  proof
    assume "schnorr_Verify s (Public si0) (nonceB @ subjDer cm) sig = None"
    with bind sg have "nonceB @ subjDer cm = nonceA @ subjDer cm"
      unfolding schnorr_binding_def by blast
    with neq show False by simp
  qed
  then obtain e where "schnorr_Verify s (Public si0) (nonceB @ subjDer cm) sig = Some e"
    by auto
  with v show ?thesis by auto
qed

text \<open>The listener's callback installs a verifier with no expected identity, on a
  nonce drawn for that connection.\<close>

lemma listener_verifier:
  "GetConfigForClient_closure go s cfg client pos = Some (Inr cfg2, pos') \<Longrightarrow>
   \<exists>nonce. VerifyPeerCertificate cfg2 = Some (verifier go s None nonce) \<and>
           makeVerifier go s None pos = Some (verifier go s None nonce, nonce, pos')"
  by (auto simp: GetConfigForClient_closure_def makeVerifier_def Let_def split: option.splits)

text \<open>The library that reads the subject alternative name is one \<^verbatim>\<open>get\<close> and the
  verifier can rely on: it meets what is asked of crypto/x509.\<close>

lemma ex_Go_san_contract: "x509_contract ex_Go_san"
  unfolding x509_contract_def
  by (auto simp: ex_Go_san_def ex_Go_def ex_tmpl_eq ex_leaf_def ex_tmpl_def tmpl_of_def
      oidDedisSig_def oidSubjectAltName_def ex_subj_def split: if_splits)

lemma ex_pubToCN: "pubToCN ex_Suite (CHR ''K'') = ''Z4b''" "pubToCN ex_Suite (CHR ''E'') = ''Z45''"
  by (simp_all add: pubToCN_def ex_Suite_def hextable_def)

lemma ex_pubFromCN_intruder: "pubFromCN ex_Suite ''Z45'' = Inr (CHR ''E'')"
  using pubFromCN_pubToCN [OF ex_point_roundtrip, of "CHR ''E''"] by (simp add: ex_pubToCN)

text \<open>
  C6. With an expected identity bound, the verifier does not insist on the subject
  name: it accepts the certificate \<open>intruder\<close>, whose common name \<open>Z45\<close> is another
  key's and whose proof is made with that key, when the expected identity's canonical
  form is \<open>Z4b\<close>. The host name check is satisfied by the subject alternative name,
  and the proof is then checked against the common name.
\<close>

theorem identity_check_bypassed:
  "verifier ex_Go_san ex_Suite (Some ex_si) ex_nonce [''intruder''] ex_now = None \<and>
   ParseCertificates ex_Go_san ''intruder'' = Inr [ex_intruder_leaf] \<and>
   CommonName (Subject ex_intruder_leaf) = ''Z45'' \<and>
   pubToCN ex_Suite (Public ex_si) = ''Z4b'' \<and>
   CommonName (Subject ex_intruder_leaf) \<noteq> pubToCN ex_Suite (Public ex_si)"
proof -
  have parse: "ParseCertificates ex_Go_san ''intruder'' = Inr [ex_intruder_leaf]"
    by (simp add: ex_Go_san_def)
  have cn: "CommonName (Subject ex_intruder_leaf) = ''Z45''"
    by (simp add: ex_intruder_leaf_def)
  have want: "pubToCN ex_Suite (Public ex_si) = ''Z4b''"
    by (simp add: ex_si_def ex_pubToCN)
  have ver: "Verify ex_Go_san ex_intruder_leaf [ex_intruder_leaf] ex_now = None"
    by (simp add: ex_Go_san_def ex_Go_def ex_intruder_leaf_def time_Hour_def time_Minute_def)
  have host: "VerifyHostname ex_Go_san ex_intruder_leaf ''Z4b'' = None"
    by (simp add: ex_Go_san_def ex_intruder_leaf_def oidSubjectAltName_def)
  have ext: "find_sig (Extensions ex_intruder_leaf) = Some (CHR ''E'' # ex_nonce @ CHR 0x13 # ''Z45'')"
    by (simp add: ex_intruder_leaf_def oidSubjectAltName_def oidDedisSig_def)
  have der: "asn1_Marshal ex_Go_san ''Z45'' = Inr (CHR 0x13 # ''Z45'')"
    by (simp add: ex_Go_san_def ex_Go_def)
  have sig: "schnorr_Verify ex_Suite (CHR ''E'') (ex_nonce @ CHR 0x13 # ''Z45'')
               (CHR ''E'' # ex_nonce @ CHR 0x13 # ''Z45'') = None"
    by (simp add: ex_Suite_def)
  have "verifier ex_Go_san ex_Suite (Some ex_si) ex_nonce [''intruder''] ex_now = None"
    by (simp add: verifier_def parse ver want host ext cn ex_pubFromCN_intruder der sig)
  with parse cn want show ?thesis by simp
qed

text \<open>
  C8. The template \<^verbatim>\<open>get\<close> has the certificate created from starts 5 minutes
  before the clock reading taken for \<open>NotBefore\<close> and ends 2 hours after the reading
  taken for \<open>NotAfter\<close>, and so does the issued certificate when parsing gives the
  window back; and when \<^verbatim>\<open>cert.Verify\<close> accepts nothing after \<open>NotAfter\<close>, the
  verifier rejects a certificate whose window has ended.
\<close>

theorem validity_window:
  "(get go cm now_a now_b r nonce = Inr tc \<longrightarrow>
      (\<exists>sig cDer tmpl.
         CreateCertificate go tmpl tmpl (ecdsa_Public go (k cm)) (k cm) = Inr cDer \<and>
         Certificate tc = [cDer] \<and>
         tmpl = tmpl_of (subj cm) sig (SetBytes r) now_a now_b \<and>
         NotBefore tmpl = now_b - 5 * 60 * 1000000000 \<and>
         NotAfter tmpl = now_a + 2 * 60 * 60 * 1000000000) \<and>
      (x509_keeps_window go \<longrightarrow>
         NotBefore (Leaf tc) = now_b - 5 * 60 * 1000000000 \<and>
         NotAfter (Leaf tc) = now_a + 2 * 60 * 60 * 1000000000)) \<and>
   (verify_checks_expiry go \<longrightarrow>
      (\<forall>raw cert. rawCerts = [raw] \<and> ParseCertificates go raw = Inr [cert] \<and> NotAfter cert < now \<longrightarrow>
         verifier go s them nonce' rawCerts now \<noteq> None))"
proof -
  have tmpl: "\<exists>sig cDer tmpl.
         CreateCertificate go tmpl tmpl (ecdsa_Public go (k cm)) (k cm) = Inr cDer \<and>
         Certificate tc = [cDer] \<and>
         tmpl = tmpl_of (subj cm) sig (SetBytes r) now_a now_b \<and>
         NotBefore tmpl = now_b - 5 * 60 * 1000000000 \<and>
         NotAfter tmpl = now_a + 2 * 60 * 60 * 1000000000"
    if got: "get go cm now_a now_b r nonce = Inr tc"
  proof -
    from get_Inr [OF got] obtain sig cDer c0 where
      "CreateCertificate go (tmpl_of (subj cm) sig (SetBytes r) now_a now_b)
         (tmpl_of (subj cm) sig (SetBytes r) now_a now_b) (ecdsa_Public go (k cm)) (k cm) = Inr cDer"
      "tc = \<lparr>PrivateKey = k cm, Certificate = [cDer], Leaf = c0\<rparr>"
      by blast
    moreover have
      "NotBefore (tmpl_of (subj cm) sig (SetBytes r) now_a now_b) = now_b - 5 * 60 * 1000000000"
      "NotAfter (tmpl_of (subj cm) sig (SetBytes r) now_a now_b) = now_a + 2 * 60 * 60 * 1000000000"
      by (simp_all add: tmpl_of_def time_Minute_def time_Hour_def)
    ultimately show ?thesis by auto
  qed
  have leaf: "NotBefore (Leaf tc) = now_b - 5 * 60 * 1000000000 \<and>
         NotAfter (Leaf tc) = now_a + 2 * 60 * 60 * 1000000000"
    if got: "get go cm now_a now_b r nonce = Inr tc" and keep: "x509_keeps_window go"
  proof -
    from get_Inr [OF got] obtain sig cDer c0 cs where
      cr: "CreateCertificate go (tmpl_of (subj cm) sig (SetBytes r) now_a now_b)
         (tmpl_of (subj cm) sig (SetBytes r) now_a now_b) (ecdsa_Public go (k cm)) (k cm) = Inr cDer"
      and pa: "ParseCertificates go cDer = Inr (c0 # cs)"
      and tc: "tc = \<lparr>PrivateKey = k cm, Certificate = [cDer], Leaf = c0\<rparr>"
      by blast
    from keep [unfolded x509_keeps_window_def, rule_format, OF conjI [OF cr pa]] tc
    show ?thesis by (simp add: time_Minute_def time_Hour_def)
  qed
  have late: "verifier go s them nonce' rawCerts now \<noteq> None"
    if lib: "verify_checks_expiry go"
      and h: "rawCerts = [raw] \<and> ParseCertificates go raw = Inr [cert] \<and> NotAfter cert < now"
    for raw cert
  proof
    assume "verifier go s them nonce' rawCerts now = None"
    from verifier_accepts_D [OF this] h have "Verify go cert [cert] now = None" by auto
    with lib have "now \<le> NotAfter cert" unfolding verify_checks_expiry_def by blast
    with h show False by simp
  qed
  from tmpl leaf late show ?thesis by blast
qed

theorem validity_window_witness:
  "get ex_Go ex_cm ex_now ex_now [CHR 0x01] ex_nonce =
     Inr \<lparr>PrivateKey = 7, Certificate = [''cert''], Leaf = ex_leaf\<rparr> \<and>
   CreateCertificate ex_Go ex_tmpl ex_tmpl (ecdsa_Public ex_Go 7) 7 = Inr ''cert'' \<and>
   NotBefore ex_tmpl = ex_now - 300000000000 \<and>
   NotAfter ex_tmpl = ex_now + 7200000000000 \<and>
   x509_keeps_window ex_Go \<and>
   NotBefore ex_leaf = ex_now - 300000000000 \<and>
   NotAfter ex_leaf = ex_now + 7200000000000 \<and>
   verify_checks_expiry ex_Go \<and>
   NotAfter ex_leaf < ex_now + 7200000000001 \<and>
   verifier ex_Go ex_Suite None ex_nonce [''cert''] (ex_now + 7200000000001) \<noteq> None"
proof -
  note w = validity_window [where go = ex_Go and cm = ex_cm and now_a = ex_now and now_b = ex_now
      and r = "[CHR 0x01]" and nonce = ex_nonce and rawCerts = "[''cert'']"
      and now = "ex_now + 7200000000001" and s = ex_Suite and them = None and nonce' = ex_nonce]
  have late: "NotAfter ex_leaf < ex_now + 7200000000001"
    by (simp add: ex_leaf_def ex_tmpl_def tmpl_of_def time_Hour_def time_Minute_def)
  from w [THEN conjunct2, THEN mp, OF ex_expiry, THEN spec, THEN spec, THEN mp, of "''cert''" ex_leaf]
    ex_parse late
  have rej: "verifier ex_Go ex_Suite None ex_nonce [''cert''] (ex_now + 7200000000001) \<noteq> None"
    by simp
  from w [THEN conjunct1, THEN mp, OF ex_get]
  have "NotBefore ex_tmpl = ex_now - 300000000000 \<and> NotAfter ex_tmpl = ex_now + 7200000000000"
    by (simp add: ex_tmpl_def tmpl_of_def time_Hour_def time_Minute_def)
  moreover from w [THEN conjunct1, THEN mp, OF ex_get, THEN conjunct2, THEN mp, OF ex_keeps_window]
  have "NotBefore ex_leaf = ex_now - 300000000000 \<and> NotAfter ex_leaf = ex_now + 7200000000000"
    by simp
  moreover have "CreateCertificate ex_Go ex_tmpl ex_tmpl (ecdsa_Public ex_Go 7) 7 = Inr ''cert''"
    by (simp add: ex_Go_def)
  ultimately show ?thesis using ex_get ex_expiry ex_keeps_window late rej by simp
qed

section \<open>Outbound connections: the retry loop\<close>

lemma loop_all_fail:
  "nat (M + 1 - i) = n \<Longrightarrow>
   (\<forall>j<n. isl (dial (dialled w @ replicate j (cfg\<lparr>ServerName := nonce\<rparr>)) addr
               (cfg\<lparr>ServerName := nonce\<rparr>))) \<Longrightarrow>
   connect_loop dial M s addr nonce i cfg err w =
     (None,
      (if n = 0 then (if err = None then Some ErrTimeout else err)
       else Some (ExternalError (projl (dial (dialled w @ replicate (n - 1) (cfg\<lparr>ServerName := nonce\<rparr>))
                    addr (cfg\<lparr>ServerName := nonce\<rparr>))))),
      w\<lparr>dialled := dialled w @ replicate n (cfg\<lparr>ServerName := nonce\<rparr>),
        slept := slept w + (n - 1)\<rparr>)"
proof (induction n arbitrary: i cfg err w)
  case 0
  then have "\<not> i \<le> M" by simp
  then show ?case by (subst connect_loop.simps) simp
next
  case (Suc n)
  let ?cfg1 = "cfg\<lparr>ServerName := nonce\<rparr>"
  let ?w1 = "w\<lparr>dialled := dialled w @ [?cfg1]\<rparr>"
  let ?w2 = "if i < M then ?w1\<lparr>slept := slept ?w1 + 1\<rparr> else ?w1"
  from Suc.prems(1) have le: "i \<le> M" and n: "nat (M + 1 - (i + 1)) = n" by simp_all
  from Suc.prems(2) have "isl (dial (dialled w @ replicate 0 ?cfg1) addr ?cfg1)" by blast
  then obtain e where e: "dial (dialled w) addr ?cfg1 = Inl e" by (auto simp: isl_def)
  have same: "?cfg1\<lparr>ServerName := nonce\<rparr> = ?cfg1" by simp
  have d2: "dialled ?w2 = dialled w @ [?cfg1]" by simp
  have rest: "\<forall>j<n. isl (dial (dialled ?w2 @ replicate j (?cfg1\<lparr>ServerName := nonce\<rparr>)) addr
               (?cfg1\<lparr>ServerName := nonce\<rparr>))"
  proof (intro allI impI)
    fix j assume "j < n"
    with Suc.prems(2) [rule_format, of "Suc j"]
    have "isl (dial (dialled w @ replicate (Suc j) ?cfg1) addr ?cfg1)"
      by simp
    then show "isl (dial (dialled ?w2 @ replicate j (?cfg1\<lparr>ServerName := nonce\<rparr>)) addr
               (?cfg1\<lparr>ServerName := nonce\<rparr>))"
      unfolding same d2 by simp
  qed
  have step: "connect_loop dial M s addr nonce i cfg err w =
        connect_loop dial M s addr nonce (i + 1) ?cfg1 (Some (ExternalError e)) ?w2"
    using le e by (subst connect_loop.simps) (simp add: Let_def)
  have iM: "i < M \<longleftrightarrow> 0 < n" using Suc.prems(1) by auto
  show ?case
    unfolding step Suc.IH [OF n rest] same d2
    using e iM
    by (cases n) (simp_all add: replicate_append_same)
qed

lemma loop_first_success:
  "j < nat (M + 1 - i) \<Longrightarrow>
   (\<forall>j'<j. isl (dial (dialled w @ replicate j' (cfg\<lparr>ServerName := nonce\<rparr>)) addr
               (cfg\<lparr>ServerName := nonce\<rparr>))) \<Longrightarrow>
   dial (dialled w @ replicate j (cfg\<lparr>ServerName := nonce\<rparr>)) addr (cfg\<lparr>ServerName := nonce\<rparr>) = Inr c \<Longrightarrow>
   connect_loop dial M s addr nonce i cfg err w =
     (Some \<lparr>conn = c, suite_conn = s\<rparr>, None,
      w\<lparr>dialled := dialled w @ replicate (Suc j) (cfg\<lparr>ServerName := nonce\<rparr>),
        slept := slept w + j\<rparr>)"
proof (induction j arbitrary: i cfg err w)
  case 0
  then have "i \<le> M" by simp
  with 0 show ?case by (subst connect_loop.simps) (simp add: Let_def)
next
  case (Suc j)
  let ?cfg1 = "cfg\<lparr>ServerName := nonce\<rparr>"
  let ?w1 = "w\<lparr>dialled := dialled w @ [?cfg1]\<rparr>"
  let ?w2 = "if i < M then ?w1\<lparr>slept := slept ?w1 + 1\<rparr> else ?w1"
  from Suc.prems(1) have lt: "i < M" and j: "j < nat (M + 1 - (i + 1))" by simp_all
  from Suc.prems(2) have "isl (dial (dialled w @ replicate 0 ?cfg1) addr ?cfg1)" by blast
  then obtain e where e: "dial (dialled w) addr ?cfg1 = Inl e" by (auto simp: isl_def)
  have same: "?cfg1\<lparr>ServerName := nonce\<rparr> = ?cfg1" by simp
  have d2: "dialled ?w2 = dialled w @ [?cfg1]" by simp
  have rest: "\<forall>j'<j. isl (dial (dialled ?w2 @ replicate j' (?cfg1\<lparr>ServerName := nonce\<rparr>)) addr
               (?cfg1\<lparr>ServerName := nonce\<rparr>))"
  proof (intro allI impI)
    fix j' assume "j' < j"
    with Suc.prems(2) [rule_format, of "Suc j'"]
    have "isl (dial (dialled w @ replicate (Suc j') ?cfg1) addr ?cfg1)"
      by simp
    then show "isl (dial (dialled ?w2 @ replicate j' (?cfg1\<lparr>ServerName := nonce\<rparr>)) addr
               (?cfg1\<lparr>ServerName := nonce\<rparr>))"
      unfolding same d2 by simp
  qed
  have hit: "dial (dialled ?w2 @ replicate j (?cfg1\<lparr>ServerName := nonce\<rparr>)) addr
               (?cfg1\<lparr>ServerName := nonce\<rparr>) = Inr c"
    unfolding same d2 using Suc.prems(3) by simp
  have step: "connect_loop dial M s addr nonce i cfg err w =
        connect_loop dial M s addr nonce (i + 1) ?cfg1 (Some (ExternalError e)) ?w2"
    using lt e by (subst connect_loop.simps) (simp add: Let_def)
  show ?case
    unfolding step Suc.IH [OF j rest hit] same
    using lt by (simp add: replicate_append_same)
qed

lemma loop_dialled:
  "connect_loop dial M s addr nonce i cfg err w = (res, e, w') \<Longrightarrow>
   set (dialled w') \<subseteq> set (dialled w) \<union> {cfg\<lparr>ServerName := nonce\<rparr>}"
proof (induction dial M s addr nonce i cfg err w rule: connect_loop.induct)
  case (1 dial M s netAddr nonce i cfg err w)
  let ?cfg1 = "cfg\<lparr>ServerName := nonce\<rparr>"
  let ?w1 = "w\<lparr>dialled := dialled w @ [?cfg1]\<rparr>"
  show ?case
  proof (cases "i \<le> M")
    case False
    with 1(2) show ?thesis by (subst (asm) connect_loop.simps) auto
  next
    case le: True
    show ?thesis
    proof (cases "dial (dialled w) netAddr ?cfg1")
      case (Inr c)
      with le 1(2) show ?thesis by (subst (asm) connect_loop.simps) (auto simp: Let_def)
    next
      case (Inl x)
      let ?w2 = "if i < M then ?w1\<lparr>slept := slept ?w1 + 1\<rparr> else ?w1"
      from le Inl 1(2) have
        "connect_loop dial M s netAddr nonce (i + 1) ?cfg1 (Some (ExternalError x)) ?w2 = (res, e, w')"
        by (subst (asm) connect_loop.simps) (simp add: Let_def)
      from 1(1) [OF le refl refl Inl this]
      show ?thesis by (auto split: if_splits)
    qed
  qed
qed

lemma ex_refused_run:
  "NewTLSConn ex_Go 3 ex_dial_refused ex_si ex_si ex_Suite 0 =
     Some (None, Some (ExternalError ''connect: connection refused''),
           \<lparr>dialled = [ex_cfg1, ex_cfg1, ex_cfg1], slept = 2\<rparr>, 32)"
proof -
  let ?c = "ex_cfg\<lparr>VerifyPeerCertificate := Some (verifier ex_Go ex_Suite (Some ex_si) ex_nonce)\<rparr>"
  let ?w0 = "\<lparr>dialled = [], slept = 0\<rparr> :: (unit, nat, unit) world"
  have c1: "?c\<lparr>ServerName := ex_nonce\<rparr> = ex_cfg1" by (simp add: ex_cfg1_def)
  have "\<forall>j<3. isl (ex_dial_refused (dialled ?w0 @ replicate j (?c\<lparr>ServerName := ex_nonce\<rparr>))
           (NetworkAddress (Address ex_si)) (?c\<lparr>ServerName := ex_nonce\<rparr>))"
    by (simp add: ex_dial_refused_def)
  moreover have "nat (3 + 1 - 1) = (3::nat)" by simp
  ultimately have
    "connect_loop ex_dial_refused 3 ex_Suite (NetworkAddress (Address ex_si)) ex_nonce 1 ?c None ?w0 =
      (None, Some (ExternalError ''connect: connection refused''),
           \<lparr>dialled = [ex_cfg1, ex_cfg1, ex_cfg1], slept = 2\<rparr>)"
    using loop_all_fail [where M = 3 and i = 1 and n = 3 and s = ex_Suite and err = None
        and dial = ex_dial_refused and w = ?w0 and cfg = ?c and nonce = ex_nonce
        and addr = "NetworkAddress (Address ex_si)"]
    unfolding c1 by (simp add: ex_dial_refused_def numeral_3_eq_3)
  moreover have "ConnType (Address ex_si) = TLS" "GetPrivate ex_si = Some (CHR ''K'')"
    by (simp_all add: ex_si_def GetPrivate_def)
  ultimately show ?thesis
    by (simp add: NewTLSConn_def ex_tlsConfig ex_makeVerifier Let_def)
qed

text \<open>
  C2, with the error of the last attempt where the claim has the timeout error. When
  every one of the \<open>M\<close> dial attempts fails the call returns after exactly \<open>M\<close>
  attempts and \<open>M - 1\<close> sleeps, with the error of the last attempt; the timeout error
  comes back only when \<open>M\<close> is below 1 and nothing was dialled. When an attempt
  succeeds, the connection of the first such attempt is returned with no further attempt.
\<close>

theorem connect_retry_outcome:
  fixes cfg :: "('v, 'k, 'g) Config"
  assumes tls: "ConnType (Address them) = TLS"
    and priv: "GetPrivate us \<noteq> None"
    and cfg: "tlsConfig go s us = Inr cfg"
    and mv: "makeVerifier go s (Some them) pos = Some (vrf, nonce, pos1)"
    and cfg1: "cfg1 = cfg\<lparr>VerifyPeerCertificate := Some vrf, ServerName := nonce\<rparr>"
    and addr: "addr = NetworkAddress (Address them)"
  shows "((\<forall>j<nat M. isl (dial (replicate j cfg1) addr cfg1)) \<longrightarrow>
            NewTLSConn go M dial us them s pos =
              Some (None,
                    Some (if M < 1 then ErrTimeout
                          else ExternalError (projl (dial (replicate (nat M - 1) cfg1) addr cfg1))),
                    \<lparr>dialled = replicate (nat M) cfg1, slept = nat M - 1\<rparr>, pos1)) \<and>
         (\<forall>j c. j < nat M \<and> (\<forall>j'<j. isl (dial (replicate j' cfg1) addr cfg1)) \<and>
                dial (replicate j cfg1) addr cfg1 = Inr c \<longrightarrow>
            NewTLSConn go M dial us them s pos =
              Some (Some \<lparr>conn = c, suite_conn = s\<rparr>, None,
                    \<lparr>dialled = replicate (Suc j) cfg1, slept = j\<rparr>, pos1))"
proof -
  let ?c = "cfg\<lparr>VerifyPeerCertificate := Some vrf\<rparr>"
  let ?w0 = "\<lparr>dialled = [], slept = 0\<rparr> :: ('v, 'k, 'g) world"
  have c1: "?c\<lparr>ServerName := nonce\<rparr> = cfg1" by (simp add: cfg1)
  from priv obtain x where x: "GetPrivate us = Some x" by auto
  have run: "NewTLSConn go M dial us them s pos =
      (case connect_loop dial M s addr nonce 1 ?c None ?w0 of (c, e, w) \<Rightarrow> Some (c, e, w, pos1))"
    using tls x cfg mv by (simp add: NewTLSConn_def addr Let_def)
  have n: "nat (M + 1 - 1) = nat M" by simp
  have fail: "NewTLSConn go M dial us them s pos =
              Some (None,
                    Some (if M < 1 then ErrTimeout
                          else ExternalError (projl (dial (replicate (nat M - 1) cfg1) addr cfg1))),
                    \<lparr>dialled = replicate (nat M) cfg1, slept = nat M - 1\<rparr>, pos1)"
    if all: "\<forall>j<nat M. isl (dial (replicate j cfg1) addr cfg1)"
  proof -
    from all have "\<forall>j<nat M. isl (dial (dialled ?w0 @ replicate j (?c\<lparr>ServerName := nonce\<rparr>)) addr
               (?c\<lparr>ServerName := nonce\<rparr>))"
      unfolding c1 by simp
    from loop_all_fail [where M = M and i = 1 and n = "nat M" and s = s and err = None
        and dial = dial and w = ?w0 and cfg = ?c and nonce = nonce and addr = addr, OF n this]
    show ?thesis
      unfolding run c1 by auto
  qed
  have hit: "NewTLSConn go M dial us them s pos =
              Some (Some \<lparr>conn = c, suite_conn = s\<rparr>, None,
                    \<lparr>dialled = replicate (Suc j) cfg1, slept = j\<rparr>, pos1)"
    if j: "j < nat M" and before: "\<forall>j'<j. isl (dial (replicate j' cfg1) addr cfg1)"
      and ok: "dial (replicate j cfg1) addr cfg1 = Inr c" for j c
  proof -
    from j have j': "j < nat (M + 1 - 1)" by simp
    from before have b: "\<forall>j'<j. isl (dial (dialled ?w0 @ replicate j' (?c\<lparr>ServerName := nonce\<rparr>)) addr
               (?c\<lparr>ServerName := nonce\<rparr>))"
      unfolding c1 by simp
    from ok have o: "dial (dialled ?w0 @ replicate j (?c\<lparr>ServerName := nonce\<rparr>)) addr
               (?c\<lparr>ServerName := nonce\<rparr>) = Inr c"
      unfolding c1 by simp
    from loop_first_success [where M = M and i = 1 and j = j and s = s and err = None and c = c
        and dial = dial and w = ?w0 and cfg = ?c and nonce = nonce and addr = addr, OF j' b o]
    show ?thesis
      unfolding run c1 by simp
  qed
  from fail hit show ?thesis by blast
qed

theorem connect_retry_outcome_witness:
  "NewTLSConn ex_Go 3 ex_dial_refused ex_si ex_si ex_Suite 0 =
     Some (None, Some (ExternalError ''connect: connection refused''),
           \<lparr>dialled = [ex_cfg1, ex_cfg1, ex_cfg1], slept = 2\<rparr>, 32) \<and>
   NewTLSConn ex_Go 3 ex_dial_second ex_si ex_si ex_Suite 0 =
     Some (Some \<lparr>conn = 42, suite_conn = ex_Suite\<rparr>, None,
           \<lparr>dialled = [ex_cfg1, ex_cfg1], slept = 1\<rparr>, 32)"
proof -
  have tls: "ConnType (Address ex_si) = TLS" and priv: "GetPrivate ex_si \<noteq> None"
    by (simp_all add: ex_si_def GetPrivate_def)
  have c1: "ex_cfg1 = ex_cfg\<lparr>VerifyPeerCertificate := Some (verifier ex_Go ex_Suite (Some ex_si) ex_nonce),
                   ServerName := ex_nonce\<rparr>"
    by (simp add: ex_cfg1_def)
  note r = connect_retry_outcome [OF tls priv ex_tlsConfig ex_makeVerifier c1 refl, of 3]
  have a: "\<forall>j<nat 3. isl (ex_dial_refused (replicate j ex_cfg1) (NetworkAddress (Address ex_si)) ex_cfg1)"
    by (simp add: ex_dial_refused_def)
  have b: "(1::nat) < nat 3 \<and>
      (\<forall>j'<1. isl (ex_dial_second (replicate j' ex_cfg1) (NetworkAddress (Address ex_si)) ex_cfg1)) \<and>
      ex_dial_second (replicate 1 ex_cfg1) (NetworkAddress (Address ex_si)) ex_cfg1 = Inr 42"
    by (simp add: ex_dial_second_def)
  from r [of ex_dial_refused, THEN conjunct1, THEN mp, OF a]
       r [of ex_dial_second, THEN conjunct2, rule_format, OF b]
  show ?thesis by (simp add: ex_dial_refused_def eval_nat_numeral)
qed

text \<open>As stated, with the timeout error after three refused attempts, the claim fails:
  the call returns the dialer's error.\<close>

theorem connect_timeout_counterexample:
  "map_option (fst \<circ> snd) (NewTLSConn ex_Go 3 ex_dial_refused ex_si ex_si ex_Suite 0) =
     Some (Some (ExternalError ''connect: connection refused'')) \<and>
   map_option (fst \<circ> snd) (NewTLSConn ex_Go 3 ex_dial_refused ex_si ex_si ex_Suite 0) \<noteq>
     Some (Some ErrTimeout)"
  by (simp add: ex_refused_run)

text \<open>
  C9. A call that gets as far as the loop makes one nonce and one verifier, before
  the loop, and no other: the random stream is left where that one draw left it, at
  least 32 bytes on, and every configuration handed to the dialer carries that nonce
  as its server name and that verifier, bound to that nonce and to the expected
  identity. A call that fails before the loop draws nothing and dials nothing.
\<close>

theorem connect_same_nonce:
  fixes w :: "('v, 'k, 'g) world"
  assumes run: "NewTLSConn go M dial us them s pos = Some (res, err, w, pos')"
  shows "if ConnType (Address them) \<noteq> TLS \<or> GetPrivate us = None \<or>
            isl (tlsConfig go s us :: error + ('v, 'k, 'g) Config)
         then dialled w = [] \<and> pos' = pos
         else (\<exists>vrf nonce.
                 makeVerifier go s (Some them) pos = Some (vrf, nonce, pos') \<and>
                 pos + 32 \<le> pos' \<and>
                 vrf = verifier go s (Some them) nonce \<and>
                 (\<forall>c \<in> set (dialled w). ServerName c = nonce \<and> VerifyPeerCertificate c = Some vrf))"
proof (cases "ConnType (Address them) \<noteq> TLS \<or> GetPrivate us = None \<or>
      isl (tlsConfig go s us :: error + ('v, 'k, 'g) Config)")
  case True
  with run have "dialled w = [] \<and> pos' = pos"
    by (auto simp: NewTLSConn_def Let_def isl_def split: if_splits sum.splits)
  with True show ?thesis by simp
next
  case False
  then obtain cfg :: "('v, 'k, 'g) Config" where cfg: "tlsConfig go s us = Inr cfg"
    by (cases "tlsConfig go s us :: error + ('v, 'k, 'g) Config") auto
  from False obtain x where x: "GetPrivate us = Some x" "ConnType (Address them) = TLS" by auto
  from run cfg x obtain vrf nonce where
    mv: "makeVerifier go s (Some them) pos = Some (vrf, nonce, pos')" and
    loop: "connect_loop dial M s (NetworkAddress (Address them)) nonce 1
         (cfg\<lparr>VerifyPeerCertificate := Some vrf\<rparr>) None \<lparr>dialled = [], slept = 0\<rparr> = (res, err, w)"
    by (auto simp: NewTLSConn_def Let_def split: option.splits prod.splits)
  have all: "\<forall>c \<in> set (dialled w). ServerName c = nonce \<and> VerifyPeerCertificate c = Some vrf"
  proof
    fix c assume c: "c \<in> set (dialled w)"
    from loop_dialled [OF loop] c
    have "c = cfg\<lparr>VerifyPeerCertificate := Some vrf, ServerName := nonce\<rparr>" by auto
    then show "ServerName c = nonce \<and> VerifyPeerCertificate c = Some vrf" by simp
  qed
  from makeVerifier_closure [OF mv] have "vrf = verifier go s (Some them) nonce" "pos + 32 \<le> pos'"
    by simp_all
  with mv all have "\<exists>vrf nonce.
                 makeVerifier go s (Some them) pos = Some (vrf, nonce, pos') \<and>
                 pos + 32 \<le> pos' \<and>
                 vrf = verifier go s (Some them) nonce \<and>
                 (\<forall>c \<in> set (dialled w). ServerName c = nonce \<and> VerifyPeerCertificate c = Some vrf)"
    by blast
  with False show ?thesis by (simp only: if_False)
qed

theorem connect_same_nonce_witness:
  "NewTLSConn ex_Go 3 ex_dial_refused ex_si ex_si ex_Suite 0 =
     Some (None, Some (ExternalError ''connect: connection refused''),
           \<lparr>dialled = [ex_cfg1, ex_cfg1, ex_cfg1], slept = 2\<rparr>, 32) \<and>
   makeVerifier ex_Go ex_Suite (Some ex_si) 0 =
     Some (verifier ex_Go ex_Suite (Some ex_si) ex_nonce, ex_nonce, 32) \<and>
   map ServerName [ex_cfg1, ex_cfg1, ex_cfg1] = [ex_nonce, ex_nonce, ex_nonce] \<and>
   map VerifyPeerCertificate [ex_cfg1, ex_cfg1, ex_cfg1] =
     replicate 3 (Some (verifier ex_Go ex_Suite (Some ex_si) ex_nonce)) \<and>
   mkNonce (RandomStream ex_Suite) 32 = Some (replicate 32 (CHR ''B''), 64) \<and>
   replicate 32 (CHR ''B'') \<noteq> ex_nonce"
proof -
  have pre: "\<not> (ConnType (Address ex_si) \<noteq> TLS \<or> GetPrivate ex_si = None \<or>
      isl (tlsConfig ex_Go ex_Suite ex_si :: error + (unit, nat, unit) Config))"
    by (simp add: ex_tlsConfig) (simp add: ex_si_def GetPrivate_def)
  from connect_same_nonce [OF ex_refused_run] pre
  have "\<exists>vrf nonce.
          makeVerifier ex_Go ex_Suite (Some ex_si) 0 = Some (vrf, nonce, 32) \<and>
          (\<forall>c \<in> set [ex_cfg1, ex_cfg1, ex_cfg1].
             ServerName c = nonce \<and> VerifyPeerCertificate c = Some vrf)"
    by (simp only: if_False world.simps) blast
  then have "map ServerName [ex_cfg1, ex_cfg1, ex_cfg1] = [ex_nonce, ex_nonce, ex_nonce] \<and>
     map VerifyPeerCertificate [ex_cfg1, ex_cfg1, ex_cfg1] =
       replicate 3 (Some (verifier ex_Go ex_Suite (Some ex_si) ex_nonce))"
    by (auto simp: ex_makeVerifier numeral_3_eq_3)
  moreover have "replicate 32 (CHR ''B'') \<noteq> ex_nonce"
    by (simp add: ex_nonce_def)
  ultimately show ?thesis
    using ex_refused_run ex_makeVerifier [of "Some ex_si"] ex_mkNonce_next by blast
qed

end
